theory Spec2Isabelle
  imports Complex_Main
begin

section \<open>The browser driver as seen by the verification scripts\<close>

text \<open>
  Every file under src/ is a Python script that drives a headless browser through the
  Playwright API: launch, new page, goto, click, wait, read an attribute, screenshot,
  close. The scripts contain no loops; their control flow is sequencing, if, try/except,
  try/finally, return and exit. The model is a state-and-exception monad: the state is
  the list of driver calls and prints made so far, and an environment decides what each
  driver call does (raise, or return a value).
\<close>

text \<open>Locators, as the scripts build them (page.locator, get_by_role, .first, ...).\<close>

datatype locator =
    Css string
  | ByLabel string
  | ByTitle string
  | ByText string
  | ByTextExact string
  | ByPlaceholder string
  | ByRole string
  | ByRoleName string string
  | ByRoleNameExact string string
  | HasText string string
  | First locator
  | Last locator
  | Nth locator nat
  | Within locator string

text \<open>
  What a driver call can raise. The scripts never inspect the exception (they catch
  Exception or use a bare except), so only the distinction between kinds matters; the
  names are those of the specification's taxonomy.
\<close>

datatype error =
    NavigationTimeout
  | ElementNotFound
  | ElementObscured
  | AssertionMismatch
  | SessionError
  | ValueError

fun describe :: "error \<Rightarrow> string" where
  "describe NavigationTimeout = ''NavigationTimeout''"
| "describe ElementNotFound = ''ElementNotFound''"
| "describe ElementObscured = ''ElementObscured''"
| "describe AssertionMismatch = ''AssertionMismatch''"
| "describe SessionError = ''SessionError''"
| "describe ValueError = ''ValueError''"

text \<open>
  One entry of the run's log: a driver call with the arguments the script passes
  (an omitted optional argument is None), a time.sleep, or a print. Durations are in
  milliseconds.
\<close>

datatype event =
    PlaywrightStart
  | PlaywrightStop
  | Launch "bool option"
  | NewContext
  | NewPage "(int \<times> int) option"
  | SetViewport int int
  | AddInitScript string
  | AddStyleTag string
  | Close
  | Goto string "int option"
  | Reload
  | WaitForLoadState string "int option"
  | WaitForSelector string "string option" "int option"
  | WaitFor locator string
  | WaitForTimeout int
  | Sleep int
  | Click locator bool "int option"
  | MouseClick int int
  | Hover locator bool
  | Focus locator
  | Fill locator string
  | Press string
  | PressOn locator string
  | SelectOption locator string
  | ScrollIntoView locator
  | IsVisible locator
  | Count locator
  | GetAttribute locator string
  | InputValue locator
  | Evaluate string
  | EvaluateOn locator string
  | ExpectVisible locator "int option"
  | ExpectNotVisible locator "int option"
  | ExpectAttribute locator string string
  | Screenshot string
  | ScreenshotOf locator string
  | Print string

text \<open>
  The driver's answer to one call: the exception it raises, if any, and otherwise the
  value it returns, read at the type the call has (is_visible: flag, count: number,
  get_attribute, input_value, evaluate: answer).
\<close>

datatype reply = Reply (raises: "error option") (flag: bool) (number: nat) (answer: "string option")

text \<open>
  The environment: the driver (it sees the log so far and the call being made), Python's
  float() on a string, str() on a float, and os.path.abspath.
\<close>

record env =
  driver :: "event list \<Rightarrow> event \<Rightarrow> reply"
  parse_float :: "string \<Rightarrow> real option"
  format_float :: "real \<Rightarrow> string"
  abspath :: "string \<Rightarrow> string"

record world =
  environment :: env
  trace :: "event list"

text \<open>
  How a block of Python stops early: an exception, exit(n) (SystemExit, which a bare
  except catches and \<open>except Exception\<close> does not), or return.
\<close>

datatype abrupt = Raise error | SysExit nat | Return

type_synonym 'a prog = "world \<Rightarrow> (abrupt + 'a) \<times> world"

definition return :: "'a \<Rightarrow> 'a prog" where
  "return x w = (Inr x, w)"

definition bind :: "'a prog \<Rightarrow> ('a \<Rightarrow> 'b prog) \<Rightarrow> 'b prog" where
  "bind m f w = (case m w of (Inl a, w') \<Rightarrow> (Inl a, w') | (Inr x, w') \<Rightarrow> f x w')"

fun seq :: "unit prog list \<Rightarrow> unit prog" where
  "seq [] = return ()"
| "seq (m # ms) = bind m (\<lambda>_. seq ms)"

definition skip :: "unit prog" where
  "skip = return ()"

definition when_do :: "bool \<Rightarrow> unit prog \<Rightarrow> unit prog" where
  "when_do b m = (if b then m else skip)"

definition emit :: "event \<Rightarrow> unit prog" where
  "emit ev w = (Inr (), w\<lparr>trace := trace w @ [ev]\<rparr>)"

definition print :: "string \<Rightarrow> unit prog" where
  "print s = emit (Print s)"

definition sleep :: "int \<Rightarrow> unit prog" where
  "sleep ms = emit (Sleep ms)"

definition call :: "event \<Rightarrow> reply prog" where
  "call ev w =
     (let r = driver (environment w) (trace w) ev;
          w' = w\<lparr>trace := trace w @ [ev]\<rparr>
      in case raises r of Some e \<Rightarrow> (Inl (Raise e), w') | None \<Rightarrow> (Inr r, w'))"

definition do_call :: "event \<Rightarrow> unit prog" where
  "do_call ev = bind (call ev) (\<lambda>_. return ())"

definition ask_flag :: "event \<Rightarrow> bool prog" where
  "ask_flag ev = bind (call ev) (\<lambda>r. return (flag r))"

definition ask_number :: "event \<Rightarrow> nat prog" where
  "ask_number ev = bind (call ev) (\<lambda>r. return (number r))"

definition ask_text :: "event \<Rightarrow> string option prog" where
  "ask_text ev = bind (call ev) (\<lambda>r. return (answer r))"

definition raise :: "error \<Rightarrow> 'a prog" where
  "raise e w = (Inl (Raise e), w)"

definition sys_exit :: "nat \<Rightarrow> 'a prog" where
  "sys_exit n w = (Inl (SysExit n), w)"

definition return_now :: "'a prog" where
  "return_now w = (Inl Return, w)"

text \<open>try: body / except Exception as e: handler e\<close>

definition try_except :: "unit prog \<Rightarrow> (error \<Rightarrow> unit prog) \<Rightarrow> unit prog" where
  "try_except body handler w =
     (case body w of (Inl (Raise e), w') \<Rightarrow> handler e w' | r \<Rightarrow> r)"

text \<open>try: body / except: handler (a bare except also catches SystemExit)\<close>

definition try_except_all :: "unit prog \<Rightarrow> unit prog \<Rightarrow> unit prog" where
  "try_except_all body handler w =
     (case body w of
        (Inl (Raise e), w') \<Rightarrow> handler w'
      | (Inl (SysExit n), w') \<Rightarrow> handler w'
      | r \<Rightarrow> r)"

text \<open>try: body / finally: fin. An early stop of fin replaces the body's outcome.\<close>

definition try_finally :: "unit prog \<Rightarrow> unit prog \<Rightarrow> unit prog" where
  "try_finally body fin w =
     (case body w of (r, w') \<Rightarrow>
        (case fin w' of (Inl a, w'') \<Rightarrow> (Inl a, w'') | (Inr _, w'') \<Rightarrow> (r, w'')))"

text \<open>Calling a Python function: a return inside ends the function, not the caller.\<close>

definition call_fn :: "unit prog \<Rightarrow> unit prog" where
  "call_fn body w = (case body w of (Inl Return, w') \<Rightarrow> (Inr (), w') | r \<Rightarrow> r)"

text \<open>with sync_playwright() as p: body. The driver is stopped on every way out.\<close>

definition with_playwright :: "unit prog \<Rightarrow> unit prog" where
  "with_playwright body = bind (do_call PlaywrightStart) (\<lambda>_. try_finally body (do_call PlaywrightStop))"

text \<open>Running a script as a process, and the exit code the shell sees.\<close>

definition run_script :: "unit prog \<Rightarrow> env \<Rightarrow> (abrupt + unit) \<times> world" where
  "run_script script e = script \<lparr>environment = e, trace = []\<rparr>"

fun exit_code_of :: "abrupt + unit \<Rightarrow> nat" where
  "exit_code_of (Inr _) = 0"
| "exit_code_of (Inl Return) = 0"
| "exit_code_of (Inl (SysExit n)) = n"
| "exit_code_of (Inl (Raise e)) = 1"

definition exit_code :: "unit prog \<Rightarrow> env \<Rightarrow> nat" where
  "exit_code script e = exit_code_of (fst (run_script script e))"

definition log_of :: "unit prog \<Rightarrow> env \<Rightarrow> event list" where
  "log_of script e = trace (snd (run_script script e))"

text \<open>str(x) for a value that may be None, and Python's \<open>a in b\<close> on strings.\<close>

fun py_str :: "string option \<Rightarrow> string" where
  "py_str None = ''None''"
| "py_str (Some s) = s"

fun starts_with :: "string \<Rightarrow> string \<Rightarrow> bool" where
  "starts_with [] ys = True"
| "starts_with (x # xs) [] = False"
| "starts_with (x # xs) (y # ys) = (x = y \<and> starts_with xs ys)"

fun contains :: "string \<Rightarrow> string \<Rightarrow> bool" where
  "contains xs [] = (xs = [])"
| "contains xs (y # ys) = (starts_with xs (y # ys) \<or> contains xs ys)"

section \<open>The scripts\<close>

subsection \<open>src/verify_settings.py\<close>

text \<open>Lines 13-28: the What's New dialog is closed inside try / except Exception.\<close>

definition verify_settings_dismiss :: "unit prog" where
  "verify_settings_dismiss =
     try_except
       (seq [
          do_call (WaitForSelector ''div[role='dialog'][aria-labelledby='whats-new-title']'' None (Some 5000)),
          bind (ask_flag (IsVisible (Css ''div[role='dialog'][aria-labelledby='whats-new-title']'')))
            (\<lambda>visible. when_do visible (seq [
               print ''What's New dialog found. Attempting to close.'',
               do_call (Press ''Escape''),
               do_call (WaitForSelector ''div[role='dialog'][aria-labelledby='whats-new-title']''
                          (Some ''hidden'') (Some 2000)),
               print ''Dialog closed.'']))])
       (\<lambda>e. print (''Dialog handling note: '' @ describe e))"

definition verify_settings :: "unit prog" where
  "verify_settings = call_fn (with_playwright (seq [
     do_call (Launch (Some True)),
     do_call (NewPage None),
     do_call (Goto ''http://localhost:8080'' None),
     do_call (WaitForSelector ''text=Pedro Pathing Visualizer'' None None),
     verify_settings_dismiss,
     try_except_all
       (do_call (WaitForSelector ''#loading-screen'' (Some ''hidden'') (Some 5000)))
       (print ''Loading screen didn't disappear?''),
     print ''Clicking Settings button...'',
     do_call (Click (Css ''button[aria-label=\"Settings\"]'') False None),
     do_call (WaitForSelector ''text=Settings'' None None),
     print ''Expanding File & Saving section...'',
     do_call (Click (Css ''text=File & Saving'') False None),
     do_call (WaitForSelector ''text=Autosave Mode'' None None),
     bind (ask_flag (IsVisible (Css ''select#autosave-mode'')))
       (\<lambda>visible. when_do (\<not> visible) (seq [
          print ''Autosave Mode select not visible'',
          sys_exit 1])),
     do_call (SelectOption (Css ''select#autosave-mode'') ''time''),
     do_call (WaitForSelector ''text=Autosave Interval'' None None),
     bind (ask_flag (IsVisible (Css ''select#autosave-interval'')))
       (\<lambda>visible. when_do (\<not> visible) (seq [
          print ''Autosave Interval select not visible'',
          sys_exit 1])),
     do_call (Screenshot ''verification_settings.png''),
     print ''Verification successful, screenshot saved.'',
     do_call Close]))"

subsection \<open>src/verify_contact.py\<close>

definition verify_contact_section :: "unit prog" where
  "verify_contact_section = call_fn (seq [
     do_call (Goto ''http://localhost:4173/'' None),
     do_call (AddStyleTag ''#loading-screen { display: none !important; }''),
     do_call (ExpectVisible (ByLabel ''Settings'') (Some 10000)),
     do_call (Click (ByLabel ''Settings'') False None),
     do_call (ExpectVisible (ByRole ''dialog'') None),
     do_call (ExpectVisible (ByText ''Credits & Legal'') None),
     do_call (Click (ByText ''Credits & Legal'') False None),
     sleep 1000,
     do_call (ExpectVisible (ByRoleName ''heading'' ''Contact & Support'') None),
     do_call (ExpectVisible (ByRoleName ''link'' ''GitHub Issues'') None),
     do_call (ExpectAttribute (ByRoleName ''link'' ''GitHub Issues'') ''href''
                ''https://github.com/Mallen220/PedroPathingVisualizer/issues''),
     do_call (ExpectVisible (ByText ''Discord: mallen20'') None),
     do_call (ExpectVisible (ByRoleName ''link'' ''allenmc220@gmail.com'') None),
     do_call (ExpectAttribute (ByRoleName ''link'' ''allenmc220@gmail.com'') ''href''
                ''mailto:allenmc220@gmail.com''),
     do_call (Screenshot ''verification_settings.png'')])"

definition verify_contact :: "unit prog" where
  "verify_contact = with_playwright (seq [
     do_call (Launch (Some True)),
     do_call (NewPage None),
     do_call (SetViewport 1280 720),
     try_finally
       (try_except
          (seq [verify_contact_section, print ''Verification successful!''])
          (\<lambda>e. seq [
             print (''Verification failed: '' @ describe e),
             do_call (Screenshot ''verification_failure.png''),
             raise e]))
       (do_call Close)])"

subsection \<open>src/verify_filemanager_sort.py\<close>

definition verify_recent_files_sort :: "unit prog" where
  "verify_recent_files_sort = call_fn (seq [
     do_call (Goto ''http://localhost:4173'' None),
     do_call (Click (ByTitle ''File Manager'') False None),
     do_call (WaitForTimeout 500),
     do_call (WaitFor (ByRoleName ''button'' ''Recent'') ''visible''),
     do_call (WaitFor (ByRoleName ''button'' ''Name'') ''visible''),
     do_call (WaitFor (ByRoleName ''button'' ''Date'') ''visible''),
     do_call (Screenshot ''/home/jules/verification/filemanager_sort_recent.png''),
     do_call (Click (ByRoleName ''button'' ''Name'') False None),
     do_call (WaitForTimeout 300),
     do_call (WaitFor (ByText ''Current Directory:'') ''visible''),
     do_call (Screenshot ''/home/jules/verification/filemanager_sort_name.png'')])"

definition verify_filemanager_sort :: "unit prog" where
  "verify_filemanager_sort = with_playwright (seq [
     do_call (Launch None),
     do_call (NewPage None),
     try_finally
       (try_except
          (seq [verify_recent_files_sort, print ''Verification script completed successfully.''])
          (\<lambda>e. print (''Verification failed: '' @ describe e)))
       (do_call Close)])"

subsection \<open>src/verification/verify_command_palette.py\<close>

definition verify_command_palette_fn :: "unit prog" where
  "verify_command_palette_fn = call_fn (seq [
     do_call (Goto ''http://localhost:4173'' None),
     sleep 2000,
     do_call (Press ''Control+p''),
     do_call (WaitForSelector ''input[placeholder='Type a command or search...']'' None (Some 5000)),
     do_call (Fill (Css ''input[placeholder='Type a command or search...']'') ''Zoom''),
     do_call (ExpectVisible (ByText ''Zoom to Fit'') None),
     do_call (Screenshot ''verification/command_palette_zoom.png''),
     do_call (Fill (Css ''input[placeholder='Type a command or search...']'') []),
     do_call (Fill (Css ''input[placeholder='Type a command or search...']'') ''Ghost''),
     do_call (ExpectVisible (ByText ''Toggle Ghost Paths'') None),
     do_call (Screenshot ''verification/command_palette_ghost.png'')])"

definition verify_command_palette :: "unit prog" where
  "verify_command_palette = with_playwright (seq [
     do_call (Launch (Some True)),
     do_call (NewPage None),
     do_call (SetViewport 1280 720),
     try_finally
       (try_except
          (seq [verify_command_palette_fn, print ''Verification successful!''])
          (\<lambda>e. seq [
             print (''Verification failed: '' @ describe e),
             do_call (Screenshot ''verification/failure.png'')]))
       (do_call Close)])"

subsection \<open>src/verification/capture_screenshot.py\<close>

text \<open>file_path and screenshot_path are os.path.abspath of the two relative names.\<close>

definition goto_file :: "string \<Rightarrow> unit prog" where
  "goto_file rel w = do_call (Goto (''file://'' @ abspath (environment w) rel) None) w"

definition screenshot_at :: "string \<Rightarrow> unit prog" where
  "screenshot_at rel w =
     seq [
       do_call (Screenshot (abspath (environment w) rel)),
       print (''Screenshot saved to '' @ abspath (environment w) rel)] w"

definition capture_screenshot :: "unit prog" where
  "capture_screenshot = call_fn (with_playwright (seq [
     do_call (Launch (Some True)),
     do_call (NewPage None),
     goto_file ''verification/page_content.html'',
     screenshot_at ''verification/simulation_page_preview.png'',
     do_call Close]))"

subsection \<open>src/verification/verify_timeline_hover.py\<close>

text \<open>
  Lines 23-26 (and verify_focus.py, lines 23-27, with timeout=2000 on the first click):
  click; on any exception (a bare except) click again with force=True.
\<close>

definition click_or_force :: "locator \<Rightarrow> int option \<Rightarrow> unit prog" where
  "click_or_force target timeout =
     try_except_all
       (do_call (Click target False timeout))
       (do_call (Click target True None))"

text \<open>Lines 35-38: the marker's opacity is read and compared with 1.\<close>

definition check_marker_opacity :: "unit prog" where
  "check_marker_opacity =
     bind (ask_text (EvaluateOn (First (Css ''div[role=\"button\"][aria-label]''))
                       ''el => window.getComputedStyle(el).opacity''))
       (\<lambda>marker_opacity. seq [
          print (''Marker opacity: '' @ py_str marker_opacity),
          when_do (marker_opacity \<noteq> Some ''1'') (print ''Error: Marker should be visible'')])"

text \<open>Lines 41-50: the tooltip's opacity before the hover.\<close>

definition check_tooltip_initial :: "unit prog" where
  "check_tooltip_initial =
     bind (ask_text (EvaluateOn (First (Within (First (Css ''div[role=\"button\"][aria-label]'')) ''div''))
                       ''el => window.getComputedStyle(el).opacity''))
       (\<lambda>tooltip_opacity. seq [
          print (''Initial tooltip opacity: '' @ py_str tooltip_opacity),
          if tooltip_opacity \<noteq> Some ''0''
          then print ''Error: Tooltip should be hidden initially''
          else print ''Verified: Tooltip is hidden initially''])"

text \<open>Lines 56-62: the tooltip's opacity after the hover.\<close>

definition check_tooltip_hover :: "unit prog" where
  "check_tooltip_hover =
     bind (ask_text (EvaluateOn (First (Within (First (Css ''div[role=\"button\"][aria-label]'')) ''div''))
                       ''el => window.getComputedStyle(el).opacity''))
       (\<lambda>tooltip_opacity_hover. seq [
          print (''Hover tooltip opacity: '' @ py_str tooltip_opacity_hover),
          if tooltip_opacity_hover = Some ''1''
          then print ''Verified: Tooltip is visible on hover''
          else print ''Error: Tooltip should be visible on hover''])"

definition verify_timeline_hover_run :: "unit prog" where
  "verify_timeline_hover_run = call_fn (seq [
     do_call (Launch (Some True)),
     do_call (NewPage None),
     try_except_all
       (do_call (Goto ''http://localhost:4173'' None))
       (seq [print ''Could not connect to localhost:4173.'', return_now]),
     do_call (WaitForLoadState ''networkidle'' None),
     bind (ask_number (Count (Css ''div[role=\"dialog\"][aria-labelledby=\"whats-new-title\"]'')))
       (\<lambda>n. bind (if n > 0
                  then ask_flag (IsVisible (First (Css ''div[role=\"dialog\"][aria-labelledby=\"whats-new-title\"]'')))
                  else return False)
         (\<lambda>visible. when_do visible (seq [
            do_call (Press ''Escape''),
            do_call (WaitForTimeout 500)]))),
     bind (ask_flag (IsVisible (ByRoleName ''button'' ''Add Path'')))
       (\<lambda>visible. when_do visible (seq [
          click_or_force (ByRoleName ''button'' ''Add Path'') None,
          do_call (WaitForTimeout 500)])),
     bind (ask_number (Count (Css ''div[role=\"button\"][aria-label]'')))
       (\<lambda>n. if n > 0 then seq [
          check_marker_opacity,
          check_tooltip_initial,
          do_call (Hover (First (Css ''div[role=\"button\"][aria-label]'')) True),
          do_call (WaitForTimeout 300),
          check_tooltip_hover,
          do_call (Screenshot ''verification/verification.png'')]
        else print ''No markers found''),
     do_call Close])"

definition verify_timeline_hover :: "unit prog" where
  "verify_timeline_hover = with_playwright verify_timeline_hover_run"

subsection \<open>src/verification/verify_focus.py\<close>

definition verify_focus_run :: "unit prog" where
  "verify_focus_run = call_fn (with_playwright (seq [
     do_call (Launch (Some True)),
     do_call (NewPage None),
     do_call (Goto ''http://localhost:5173'' None),
     do_call (WaitForTimeout 2000),
     do_call (Press ''Escape''),
     do_call (WaitForTimeout 500),
     do_call (Press ''Escape''),
     do_call (WaitForTimeout 500),
     bind (ask_number (Count (ByLabel ''Add new path segment'')))
       (\<lambda>n. when_do (n > 0)
          (click_or_force (First (ByLabel ''Add new path segment'')) (Some 2000))),
     bind (ask_number (Count (Css ''button[title*=\"control points\"]'')))
       (\<lambda>n. when_do (n > 0)
          (bind (ask_text (GetAttribute (First (Css ''button[title*=\"control points\"]'')) ''title''))
             (\<lambda>title. when_do (contains ''Show'' (py_str title))
                (do_call (Click (First (Css ''button[title*=\"control points\"]'')) False None))))),
     bind (ask_number (Count (ByLabel ''Add Control Point'')))
       (\<lambda>n. when_do (n > 0) (seq [
          do_call (Click (First (ByLabel ''Add Control Point'')) False None),
          do_call (WaitForTimeout 200),
          do_call (Click (First (ByLabel ''Add Control Point'')) False None),
          do_call (WaitForTimeout 200)])),
     bind (ask_number (Count (ByLabel ''Move control point up'')))
       (\<lambda>n. if n \<ge> 2 then seq [
          do_call (Focus (Nth (ByLabel ''Move control point up'') 1)),
          do_call (WaitForTimeout 500),
          do_call (Screenshot ''verification/focus_visible.png'')]
        else seq [
          print ''Could not find enough control points buttons'',
          do_call (Screenshot ''verification/debug.png'')]),
     do_call Close]))"

subsection \<open>src/verify_fix_v2.py\<close>

text \<open>float(x): a ValueError when x is not the text of a number.\<close>

definition to_float :: "string option \<Rightarrow> real prog" where
  "to_float s w =
     (case s of
        None \<Rightarrow> raise ValueError w
      | Some t \<Rightarrow> (case parse_float (environment w) t of
                    None \<Rightarrow> raise ValueError w
                  | Some x \<Rightarrow> return x w))"

definition print_float :: "string \<Rightarrow> real \<Rightarrow> unit prog" where
  "print_float label x w = print (label @ format_float (environment w) x) w"

text \<open>Lines 15-23: the What's New dialog.\<close>

definition verify_fix_v2_dismiss :: "unit prog" where
  "verify_fix_v2_dismiss =
     try_except
       (bind (ask_flag (IsVisible (Css ''div[aria-labelledby='whats-new-title']'')))
          (\<lambda>visible. when_do visible (seq [
             print ''Found What's New dialog, closing it...'',
             do_call (Press ''Escape''),
             do_call (ExpectNotVisible (Css ''div[aria-labelledby='whats-new-title']'') None),
             print ''Closed What's New dialog''])))
       (\<lambda>e. print (''Error handling dialog: '' @ describe e))"

text \<open>The button name of line 43 starts with the Greek letter pi, written [pi] here.\<close>

definition verify_fix_v2_run :: "unit prog" where
  "verify_fix_v2_run = call_fn (seq [
     do_call (Launch (Some True)),
     do_call (NewPage None),
     do_call (Goto ''http://localhost:4173/'' None),
     do_call (ExpectVisible (First (ByRoleName ''heading'' ''Pedro Pathing Visualizer'')) None),
     sleep 1000,
     verify_fix_v2_dismiss,
     bind (ask_flag (IsVisible (Css ''#loading-screen'')))
       (\<lambda>visible. when_do visible (seq [
          print ''Waiting for loading screen to disappear...'',
          do_call (ExpectNotVisible (Css ''#loading-screen'') (Some 10000))])),
     print ''Opening Settings...'',
     do_call (Click (ByRoleName ''button'' ''Settings'') False None),
     do_call (ExpectVisible (ByRoleName ''dialog'' ''Settings'') None),
     print ''Expanding Motion Parameters...'',
     do_call (Click (ByText ''Motion Parameters'') False None),
     do_call (ExpectVisible (ByRoleName ''button'' ''[pi] rad/s'') None),
     do_call (ExpectVisible (ByRoleName ''button'' ''deg/s'') None),
     print ''Verifying Unit Toggle...'',
     bind (bind (ask_text (InputValue (Css ''#angular-velocity''))) to_float)
       (\<lambda>initial_val. print_float ''Initial Value (Rad Multiplier): '' initial_val),
     do_call (Click (ByRoleName ''button'' ''deg/s'') False None),
     bind (bind (ask_text (InputValue (Css ''#angular-velocity''))) to_float)
       (\<lambda>deg_val. seq [
          print_float ''Value in Deg/s: '' deg_val,
          when_do (\<bar>deg_val - 180\<bar> > 1 / 10) (seq [
            print_float ''FAIL: Unit conversion incorrect. Expected ~180, got '' deg_val,
            sys_exit 1])]),
     print ''Verifying Max Angular Acceleration Input...'',
     do_call (ExpectVisible (Css ''#max-angular-acceleration'') None),
     do_call (Fill (Css ''#max-angular-acceleration'') ''10''),
     do_call (PressOn (Css ''#max-angular-acceleration'') ''Enter''),
     print ''Closing Settings...'',
     do_call (Click (ByRoleNameExact ''button'' ''Close'') False None),
     do_call (ExpectNotVisible (ByRoleName ''dialog'' ''Settings'') None),
     do_call (Screenshot ''/home/jules/verification/verification_v2.png''),
     print ''PASS: Verified Unit Toggle and New Input'',
     do_call Close])"

definition verify_fix_v2 :: "unit prog" where
  "verify_fix_v2 = with_playwright verify_fix_v2_run"

subsection \<open>src/verify_font_size.py\<close>

definition verify_font_size_run :: "unit prog" where
  "verify_font_size_run = call_fn (seq [
     do_call (Launch (Some True)),
     do_call (NewPage None),
     try_finally
       (try_except
          (seq [
             do_call (Goto ''http://localhost:3000'' None),
             do_call (WaitForSelector ''#settings-btn'' None (Some 20000)),
             do_call (Evaluate ''const overlay = document.querySelector('.driver-overlay'); if (overlay) overlay.remove(); const popover = document.querySelector('.driver-popover'); if (popover) popover.remove(); document.body.classList.remove('driver-active', 'driver-fade');''),
             do_call (WaitForTimeout 500),
             do_call (Click (Css ''#settings-btn'') True None),
             do_call (WaitForSelector ''h2:has-text('Settings')'' None (Some 5000)),
             do_call (Screenshot ''verification_settings_open.png''),
             do_call (Click (ByRoleName ''button'' ''Interface Settings'') True None),
             do_call (WaitForSelector ''text=Program Font Size'' None (Some 2000)),
             do_call (Screenshot ''verification_default.png''),
             do_call (Fill (Css ''input#program-font-size'') ''150''),
             do_call (WaitForTimeout 1000),
             bind (ask_text (Evaluate ''document.documentElement.style.fontSize''))
               (\<lambda>font_size. seq [
                  print (''Font size: '' @ py_str font_size),
                  if font_size = Some ''150%''
                  then print ''Font size updated correctly in DOM''
                  else print (''Font size NOT updated correctly. Expected 150%, got '' @ py_str font_size)]),
             do_call (Screenshot ''verification_enlarged.png'')])
          (\<lambda>e. seq [
             print (''Error: '' @ describe e),
             do_call (Screenshot ''error.png'')]))
       (do_call Close)])"

definition verify_font_size :: "unit prog" where
  "verify_font_size = with_playwright verify_font_size_run"

subsection \<open>src/verify_history.py\<close>

definition verify_history_panel :: "unit prog" where
  "verify_history_panel = call_fn (with_playwright (seq [
     do_call (Launch (Some True)),
     do_call (NewPage None),
     do_call (AddInitScript ''localStorage.setItem('pedro-settings', JSON.stringify({ version: '1.0.0', settings: { hasSeenOnboarding: true, lastSeenVersion: '1.7.0' }, lastUpdated: new Date().toISOString() }));''),
     try_except
       (do_call (Goto ''http://localhost:5173'' (Some 30000)))
       (\<lambda>e. seq [print (''Failed to load page: '' @ describe e), return_now]),
     try_except_all
       (do_call (WaitForSelector ''text=Pedro Pathing Visualizer'' None (Some 10000)))
       (seq [
          print ''Timeout waiting for title'',
          do_call (Screenshot ''debug_timeout.png''),
          return_now]),
     print ''App loaded'',
     try_except_all (seq [do_call (Press ''Escape''), sleep 500]) skip,
     print ''Clicking Add Path...'',
     try_except
       (seq [
          sleep 1000,
          do_call (Click (ByRoleName ''button'' ''Add Path after start'') False None),
          sleep 500,
          print ''Clicking Add Wait...'',
          do_call (Click (ByRoleName ''button'' ''Add Wait after start'') False None),
          sleep 500])
       (\<lambda>e. seq [
          print (''Failed to click buttons: '' @ describe e),
          do_call (Screenshot ''debug_click_fail.png'')]),
     print ''Opening History Dropdown...'',
     try_except
       (seq [
          do_call (Click (ByRoleName ''button'' ''History'') False None),
          sleep 1000])
       (\<lambda>e. seq [
          print (''Failed to open history dropdown: '' @ describe e),
          do_call (Screenshot ''debug_dropdown_fail.png''),
          return_now]),
     do_call (Screenshot ''verification_history.png''),
     print ''Screenshot taken: verification_history.png'',
     do_call Close]))"

subsection \<open>src/verification/verify_feature.py\<close>

text \<open>Lines 17-22 and 24-29: the two onboarding dialogs.\<close>

definition verify_feature_dismiss_whats_new :: "unit prog" where
  "verify_feature_dismiss_whats_new =
     try_except
       (bind (ask_flag (IsVisible (Css ''text=What's New'')))
          (\<lambda>visible. when_do visible (seq [
             print ''Closing What's New...'',
             do_call (Click (Css ''button[aria-label='Close']'') False None)])))
       (\<lambda>e. print (''Note: '' @ describe e))"

definition verify_feature_dismiss_tutorial :: "unit prog" where
  "verify_feature_dismiss_tutorial =
     try_except
       (bind (ask_flag (IsVisible (Css ''text=Skip'')))
          (\<lambda>visible. when_do visible (seq [
             print ''Skipping tutorial...'',
             do_call (Click (Css ''text=Skip'') False None)])))
       (\<lambda>e. print (''Note: '' @ describe e))"

definition verify_feature_run :: "unit prog" where
  "verify_feature_run = call_fn (seq [
     do_call (Launch None),
     do_call (NewPage None),
     do_call (SetViewport 1280 720),
     print ''Navigating...'',
     do_call (Goto ''http://localhost:4173/'' None),
     do_call (WaitForLoadState ''networkidle'' None),
     verify_feature_dismiss_whats_new,
     verify_feature_dismiss_tutorial,
     print ''Opening Export menu...'',
     do_call (Click (Css ''text=Export'') False None),
     print ''Clicking Strategy Sheet...'',
     do_call (Click (Css ''text=Strategy Sheet'') False None),
     print ''Waiting for dialog...'',
     do_call (WaitForSelector ''text=Strategy Sheet Preview'' None None),
     do_call (WaitForTimeout 1000),
     print ''Taking screenshot...'',
     do_call (Screenshot ''verification/strategy_sheet.png''),
     do_call Close])"

definition verify_feature :: "unit prog" where
  "verify_feature = with_playwright verify_feature_run"

subsection \<open>src/verification/verify_setup.py\<close>

definition verify_setup_dialog :: "unit prog" where
  "verify_setup_dialog = call_fn (with_playwright (seq [
     do_call (Launch (Some True)),
     do_call NewContext,
     do_call (AddInitScript ''window.electronAPI = { getSavedDirectory: async () => null, getDirectory: async () => null, setDirectory: async () => \"/mock/path\", onMenuAction: () => {}, onOpenFilePath: () => {}, rendererReady: () => {}, getAppVersion: async () => \"1.0.0\", getAppDataPath: async () => \"\", listFiles: async () => [] };''),
     do_call (NewPage None),
     do_call (Goto ''http://localhost:4173'' None),
     try_except
       (seq [
          do_call (WaitForSelector ''text=Select Your AutoPaths Directory'' None (Some 10000)),
          print ''Setup dialog found!''])
       (\<lambda>e. seq [
          print (''Setup dialog NOT found! '' @ describe e),
          do_call (Screenshot ''/home/jules/verification/verification_failure.png''),
          do_call Close,
          return_now]),
     do_call (Screenshot ''/home/jules/verification/verification.png''),
     do_call Close]))"

subsection \<open>src/verification/verify_aria.py\<close>

text \<open>
  The script is async; every call is awaited at once, so the order of the calls is the
  order of the text. The check mark the prints start with is written [ok] here.
\<close>

definition verify_aria_labels :: "unit prog" where
  "verify_aria_labels = call_fn (with_playwright (seq [
     do_call (Launch (Some True)),
     do_call (NewPage None),
     try_except
       (seq [
          do_call (Goto ''http://localhost:4173'' None),
          do_call (WaitForLoadState ''networkidle'' None)])
       (\<lambda>e. seq [
          print (''Failed to load page: '' @ describe e),
          do_call Close,
          return_now]),
     print ''Page loaded.'',
     print ''Checking Navbar ARIA labels...'',
     do_call (ExpectVisible (ByLabel ''Open File Manager'') None),
     print ''[ok] File Manager button has correct label'',
     do_call (ExpectVisible (ByLabel ''Toggle Grid'') None),
     print ''[ok] Grid toggle has correct label'',
     do_call (ExpectVisible (ByLabel ''Toggle Ruler'') None),
     print ''[ok] Ruler toggle has correct label'',
     print ''Opening File Manager...'',
     do_call (Click (ByLabel ''Open File Manager'') False None),
     do_call (ExpectVisible (Css ''button[title='Close']'') None),
     print ''Checking File Manager ARIA labels...'',
     do_call (ExpectVisible (ByRoleName ''button'' ''Name'') None),
     do_call (ExpectVisible (ByRoleName ''button'' ''Recent'') None),
     bind (ask_text (GetAttribute (ByRoleName ''button'' ''Name'') ''aria-pressed''))
       (\<lambda>is_pressed. print (''Name sort aria-pressed: '' @ py_str is_pressed)),
     do_call (Click (ByRoleName ''button'' ''Recent'') False None),
     bind (ask_text (GetAttribute (ByRoleName ''button'' ''Recent'') ''aria-pressed''))
       (\<lambda>is_pressed_recent. print (''Recent sort aria-pressed after click: '' @ py_str is_pressed_recent)),
     do_call (Screenshot ''verification/aria_verification.png''),
     print ''Screenshot taken at verification/aria_verification.png'',
     do_call Close]))"

subsection \<open>src/verification/verify_script_v2.py\<close>

text \<open>Lines 20-29: the What's New dialog.\<close>

definition verify_script_v2_dismiss :: "unit prog" where
  "verify_script_v2_dismiss =
     try_except
       (bind (ask_flag (IsVisible (First (Css ''button[aria-label='Close']''))))
          (\<lambda>visible. if visible then seq [
             do_call (Click (First (Css ''button[aria-label='Close']'')) False None),
             print ''Closed 'What's New' dialog.'']
           else seq [
             do_call (Press ''Escape''),
             print ''Pressed Escape to close dialog.'']))
       (\<lambda>e. print (''Error closing dialog: '' @ describe e))"

definition verify_path_stats :: "unit prog" where
  "verify_path_stats = call_fn (with_playwright (seq [
     do_call (Launch (Some True)),
     do_call (NewPage (Some (1280, 800))),
     try_except
       (do_call (Goto ''http://localhost:5173'' (Some 20000)))
       (\<lambda>e. seq [print (''Failed to load page: '' @ describe e), return_now]),
     do_call (WaitForTimeout 2000),
     verify_script_v2_dismiss,
     do_call (WaitForTimeout 1000),
     try_except
       (bind (ask_flag (IsVisible (ByRoleName ''button'' ''Add Rotate'')))
          (\<lambda>visible. if visible then seq [
             do_call (Click (ByRoleName ''button'' ''Add Rotate'') False None),
             print ''Clicked 'Add Rotate' button.'']
           else print '''Add Rotate' button not visible.''))
       (\<lambda>e. print (''Error adding rotate: '' @ describe e)),
     do_call (WaitForTimeout 500),
     try_except
       (bind (ask_flag (IsVisible (ByRoleName ''button'' ''View path statistics'')))
          (\<lambda>visible.
             bind (return (if \<not> visible then ByTextExact ''Stats''
                           else ByRoleName ''button'' ''View path statistics''))
               (\<lambda>stats_btn. bind (ask_flag (IsVisible stats_btn))
                  (\<lambda>visible2. if visible2 then seq [
                     do_call (Click stats_btn False None),
                     print ''Clicked 'Stats' button.'']
                   else print ''Stats button not found.''))))
       (\<lambda>e. print (''Error opening stats: '' @ describe e)),
     do_call (WaitForTimeout 1000),
     do_call (Screenshot ''verification/path_stats_dialog.png''),
     print ''Screenshot saved to verification/path_stats_dialog.png'',
     do_call Close]))"

subsection \<open>src/verification/verify_timeline.py\<close>

definition verify_timeline_run :: "unit prog" where
  "verify_timeline_run = call_fn (with_playwright (seq [
     do_call (Launch (Some True)),
     do_call (NewPage None),
     do_call (Goto ''http://localhost:5173'' None),
     do_call (WaitForSelector ''text=Paths'' None None),
     do_call (WaitForSelector ''#loading-screen'' (Some ''hidden'') None),
     try_except_all (do_call (Press ''Escape'')) skip,
     do_call (WaitForTimeout 1000),
     do_call (Click (First (ByRoleName ''button'' ''Add Path'')) False None),
     do_call (Click (ByRoleName ''button'' ''Add wait command'') False None),
     do_call (Click (ByRoleName ''button'' ''Add rotate command'') False None),
     bind (ask_number (Count (First (Css ''button[title*='event markers']''))))
       (\<lambda>n. if n > 0 then seq [
          do_call (Click (First (Css ''button[title*='event markers']'')) False None),
          do_call (WaitForTimeout 500),
          do_call (Click (First (HasText ''button'' ''Add Marker'')) False None)]
        else print ''Could not find Event Markers button''),
     do_call (WaitForTimeout 500),
     do_call (Screenshot ''verification/timeline_full.png''),
     bind (ask_number (Count (Within (Within (Css ''input[type=range][aria-label='Animation progress']'') ''..'') ''..'')))
       (\<lambda>n. when_do (n > 0)
          (do_call (ScreenshotOf (Within (Within (Css ''input[type=range][aria-label='Animation progress']'') ''..'') ''..'')
                      ''verification/timeline_controls.png''))),
     print ''Screenshots taken'',
     do_call Close]))"

subsection \<open>src/verification/verify_whats_new.py\<close>

definition test_whats_new_dialog :: "unit prog" where
  "test_whats_new_dialog = call_fn (seq [
     do_call (Goto ''http://localhost:5173'' None),
     try_except_all
       (do_call (WaitForSelector ''#loading-screen'' (Some ''detached'') (Some 5000)))
       skip,
     do_call (WaitForTimeout 1000),
     do_call (Press ''Shift+N''),
     do_call (ExpectVisible (ByRoleName ''dialog'' ''What's New'') (Some 5000)),
     do_call (Screenshot ''verification/whats_new_grid.png''),
     do_call (Fill (ByPlaceholder ''Search...'') ''version''),
     do_call (WaitForTimeout 1000),
     do_call (Screenshot ''verification/whats_new_search.png''),
     do_call (Fill (ByPlaceholder ''Search...'') []),
     do_call (Click (ByRoleName ''button'' ''Release Notes'') False None),
     do_call (WaitForTimeout 1000),
     do_call (Screenshot ''verification/whats_new_release_list.png''),
     do_call (Click (ByRoleName ''button'' ''Version 2.0.0 Highlights'') False None),
     do_call (WaitForTimeout 1000),
     do_call (ExpectVisible (ByRoleName ''heading'' ''Version 2.0.0 Highlights'') None),
     do_call (ExpectVisible (ByText ''What's New in 2.0.0'') None),
     do_call (Screenshot ''verification/whats_new_content.png'')])"

definition verify_whats_new :: "unit prog" where
  "verify_whats_new = with_playwright (seq [
     do_call (Launch (Some True)),
     do_call (NewPage None),
     try_finally test_whats_new_dialog (do_call Close)])"

subsection \<open>src/verification/verify_rotate.py\<close>

definition test_add_rotate_features :: "unit prog" where
  "test_add_rotate_features = call_fn (with_playwright (seq [
     do_call (Launch (Some True)),
     do_call NewContext,
     do_call (NewPage None),
     try_finally
       (try_except
          (seq [
             do_call (Goto ''http://localhost:5173'' None),
             do_call (WaitForSelector ''text=Path 1'' None (Some 10000)),
             do_call (MouseClick 10 10),
             do_call (Press ''Escape''),
             sleep 2000,
             do_call (Evaluate ''document.querySelectorAll('[role=dialog]').forEach(e => e.remove())''),
             sleep 1000,
             do_call (Click (Css ''text=Add Rotate >> nth=0'') False None),
             do_call (Screenshot ''verification/1_add_rotate_at_start.png''),
             do_call Reload,
             do_call (WaitForSelector ''text=Path 1'' (Some ''visible'') (Some 10000)),
             do_call (Press ''Escape''),
             do_call (Evaluate ''document.querySelectorAll('[role=dialog]').forEach(e => e.remove())''),
             sleep 1000,
             bind (ask_flag (IsVisible (First (Css ''button[title='Add Rotate After']''))))
               (\<lambda>visible. if visible
                  then do_call (Click (First (Css ''button[title='Add Rotate After']'')) False None)
                  else print ''Could not find Add Rotate After button for Path''),
             do_call (Screenshot ''verification/2_add_rotate_after_path.png''),
             do_call (Click (Last (Css ''text=Add Wait'')) False None),
             bind (ask_flag (IsVisible (Last (Css ''button[title='Add Rotate After']''))))
               (\<lambda>visible. if visible
                  then do_call (Click (Last (Css ''button[title='Add Rotate After']'')) False None)
                  else print ''Could not find Add Rotate After button for Wait''),
             do_call (Screenshot ''verification/3_add_rotate_after_wait.png''),
             print ''Verification script completed.''])
          (\<lambda>e. seq [
             print (''Error: '' @ describe e),
             do_call (Screenshot ''verification/error.png'')]))
       (do_call Close)]))"

subsection \<open>src/verify_frontend.py\<close>

text \<open>Lines 23-43: the What's New dialog.\<close>

definition verify_frontend_dismiss :: "unit prog" where
  "verify_frontend_dismiss =
     try_except
       (bind (ask_flag (IsVisible (Css ''div[role='dialog']'')))
          (\<lambda>visible. when_do visible (seq [
             print ''Dialog detected. Attempting to close...'',
             do_call (Press ''Escape''),
             sleep 1000,
             bind (ask_flag (IsVisible (Css ''div[role='dialog']'')))
               (\<lambda>still. when_do still (seq [
                  print ''Dialog still visible after Escape, trying close button...'',
                  do_call (Click (First (Within (Css ''div[role='dialog']'') ''button'')) False None),
                  sleep 1000]))])))
       (\<lambda>e. print (''Error handling dialog: '' @ describe e))"

text \<open>
  Lines 94-114 and 130-149: a label, the value of its \<open>for\<close> attribute, and the input
  with that id. \<open>if for_attr:\<close> is false for None and for the empty string.
\<close>

definition check_label_association :: "locator \<Rightarrow> unit prog" where
  "check_label_association label =
     bind (ask_text (GetAttribute label ''for''))
       (\<lambda>for_attr. seq [
          print (''Label for attribute: '' @ py_str for_attr),
          if for_attr \<noteq> None \<and> for_attr \<noteq> Some []
          then bind (ask_flag (IsVisible (Css (''#'' @ py_str for_attr))))
                 (\<lambda>visible. if visible
                    then print (''SUCCESS: Found input with id '' @ py_str for_attr)
                    else print (''FAILURE: Input with id '' @ py_str for_attr @ '' not found/visible''))
          else print ''FAILURE: Label has no 'for' attribute''])"

definition verify_frontend :: "unit prog" where
  "verify_frontend = call_fn (with_playwright (seq [
     do_call (Launch (Some True)),
     do_call (NewPage (Some (1280, 800))),
     print ''Navigating to http://localhost:8080...'',
     do_call (Goto ''http://localhost:8080'' None),
     print ''Waiting for loading screen to disappear...'',
     try_except_all
       (do_call (WaitForSelector ''#loading-screen'' (Some ''hidden'') (Some 10000)))
       (print ''Loading screen wait timeout, proceeding...''),
     sleep 2000,
     verify_frontend_dismiss,
     try_except
       (seq [
          bind (ask_flag (IsVisible (First (HasText ''button'' ''Path 1''))))
            (\<lambda>toggle_visible. when_do toggle_visible
               (bind (ask_flag (IsVisible (ByText ''Target Position'')))
                  (\<lambda>target_visible. when_do (\<not> target_visible) (seq [
                     print ''Clicking Path 1 toggle'',
                     do_call (Click (First (HasText ''button'' ''Path 1'')) False None),
                     sleep 500])))),
          bind (ask_flag (IsVisible (ByText ''Target Position'')))
            (\<lambda>visible. if visible then seq [
               print ''Target Position text is visible.'',
               bind (ask_text (EvaluateOn (ByText ''Target Position'') ''el => el.tagName''))
                 (\<lambda>tag_name. seq [
                    print (''Target Position tag: '' @ py_str tag_name),
                    if tag_name = Some ''SPAN''
                    then print ''SUCCESS: Target Position is a SPAN.''
                    else print (''FAILURE: Target Position is '' @ py_str tag_name)]),
               do_call (Screenshot ''verification_sidebar.png'')]
             else print ''Target Position text NOT visible.'')])
       (\<lambda>e. print (''Error verifying PathLineSection: '' @ describe e)),
     try_except
       (seq [
          do_call (ScrollIntoView (First (Css ''button[title='Add Wait After']''))),
          do_call (Click (First (Css ''button[title='Add Wait After']'')) False None),
          print ''Clicked Add Wait After'',
          sleep 1000,
          bind (ask_flag (IsVisible (ByText ''Duration (ms)'')))
            (\<lambda>visible. if visible then seq [
               print ''Duration (ms) label visible'',
               check_label_association (ByText ''Duration (ms)''),
               do_call (Screenshot ''verification_wait.png'')]
             else print ''Duration (ms) label NOT visible'')])
       (\<lambda>e. print (''Error verifying WaitSection: '' @ describe e)),
     try_except
       (seq [
          do_call (ScrollIntoView (First (Css ''button[title='Add Rotate After']''))),
          do_call (Click (First (Css ''button[title='Add Rotate After']'')) False None),
          print ''Clicked Add Rotate After'',
          sleep 1000,
          bind (ask_flag (IsVisible (Last (ByText ''Heading (deg)''))))
            (\<lambda>visible. when_do visible (seq [
               print ''Heading (deg) label visible'',
               check_label_association (Last (ByText ''Heading (deg)'')),
               do_call (Screenshot ''verification_rotate.png'')]))])
       (\<lambda>e. print (''Error verifying RotateSection: '' @ describe e)),
     do_call Close]))"

section \<open>All the scripts\<close>

text \<open>The eighteen files under src/, each with the program that running the file executes.\<close>

definition scripts :: "(string \<times> unit prog) list" where
  "scripts = [
     (''verify_contact.py'', verify_contact),
     (''verify_filemanager_sort.py'', verify_filemanager_sort),
     (''verify_fix_v2.py'', verify_fix_v2),
     (''verify_font_size.py'', verify_font_size),
     (''verify_frontend.py'', verify_frontend),
     (''verify_history.py'', verify_history_panel),
     (''verify_settings.py'', verify_settings),
     (''verification/capture_screenshot.py'', capture_screenshot),
     (''verification/verify_aria.py'', verify_aria_labels),
     (''verification/verify_command_palette.py'', verify_command_palette),
     (''verification/verify_feature.py'', verify_feature),
     (''verification/verify_focus.py'', verify_focus_run),
     (''verification/verify_rotate.py'', test_add_rotate_features),
     (''verification/verify_script_v2.py'', verify_path_stats),
     (''verification/verify_setup.py'', verify_setup_dialog),
     (''verification/verify_timeline.py'', verify_timeline_run),
     (''verification/verify_timeline_hover.py'', verify_timeline_hover),
     (''verification/verify_whats_new.py'', verify_whats_new)]"

section \<open>Environments used to run the scripts\<close>

text \<open>A driver call that succeeds and reports nothing: not visible, count 0, no text.\<close>

definition quiet :: reply where
  "quiet = Reply None False 0 None"

definition raising :: "error \<Rightarrow> reply" where
  "raising e = Reply (Some e) False 0 None"

definition env_of :: "(event list \<Rightarrow> event \<Rightarrow> reply) \<Rightarrow> env" where
  "env_of d = \<lparr>driver = d, parse_float = (\<lambda>s. None), format_float = (\<lambda>x. []),
               abspath = (\<lambda>p. ''/repo/'' @ p)\<rparr>"

text \<open>Every call succeeds, except that the call ev raises e.\<close>

definition failing_at :: "event \<Rightarrow> error \<Rightarrow> env" where
  "failing_at ev e = env_of (\<lambda>h c. if c = ev then raising e else quiet)"

text \<open>Every call succeeds, and every is_visible says yes, every count says 1.\<close>

definition all_visible :: env where
  "all_visible = env_of (\<lambda>h c. Reply None True 1 None)"

section \<open>What the claims speak about\<close>

subsection \<open>Everything a program adds to the log\<close>

text \<open>
  \<open>emits_only ok m\<close>: from any state, running m only appends to the log, every appended
  entry satisfies ok, and the environment is the one m started with.
\<close>

definition emits_only :: "(event \<Rightarrow> bool) \<Rightarrow> 'a prog \<Rightarrow> bool" where
  "emits_only ok m =
     (\<forall>w. \<exists>new. trace (snd (m w)) = trace w @ new \<and> list_all ok new
               \<and> environment (snd (m w)) = environment w)"

subsection \<open>Navigation targets\<close>

text \<open>The scheme of a URL is what stands before the first colon.\<close>

definition url_scheme :: "string \<Rightarrow> string" where
  "url_scheme u = takeWhile (\<lambda>c. c \<noteq> CHR '':'') u"

definition digit_val :: "char \<Rightarrow> nat option" where
  "digit_val c =
     (let n = (of_char c :: nat) in if 48 \<le> n \<and> n \<le> 57 then Some (n - 48) else None)"

text \<open>The decimal port after the host, up to the end of the URL or a final slash.\<close>

fun read_port :: "string \<Rightarrow> nat \<Rightarrow> nat option" where
  "read_port [] acc = Some acc"
| "read_port (c # cs) acc =
     (if c = CHR ''/'' then (if cs = [] then Some acc else None)
      else (case digit_val c of None \<Rightarrow> None | Some d \<Rightarrow> read_port cs (10 * acc + d)))"

definition localhost_port :: "string \<Rightarrow> nat option" where
  "localhost_port u =
     (if starts_with ''http://localhost:'' u then read_port (drop 17 u) 0 else None)"

definition ports :: "nat list" where
  "ports = [3000, 4173, 5173, 8080]"

text \<open>The URL literals that the scripts pass to page.goto.\<close>

definition http_urls :: "string list" where
  "http_urls = [''http://localhost:3000'', ''http://localhost:4173'', ''http://localhost:4173/'',
                ''http://localhost:5173'', ''http://localhost:8080'']"

text \<open>The timeout arguments that the scripts pass to page.goto (None: no argument).\<close>

definition goto_timeouts :: "int option list" where
  "goto_timeouts = [None, Some 20000, Some 30000]"

definition goto_http :: "event \<Rightarrow> bool" where
  "goto_http ev =
     (case ev of Goto u t \<Rightarrow> u \<in> set http_urls \<and> t \<in> set goto_timeouts | _ \<Rightarrow> True)"

definition goto_local_file :: "event \<Rightarrow> bool" where
  "goto_local_file ev =
     (case ev of Goto u t \<Rightarrow> (\<exists>p. u = ''file://'' @ p) \<and> t = None | _ \<Rightarrow> True)"

subsection \<open>Timeouts\<close>

text \<open>The timeout argument of a call that waits (None: the script passes none).\<close>

fun timeout_of :: "event \<Rightarrow> int option" where
  "timeout_of (Goto u t) = t"
| "timeout_of (WaitForLoadState st t) = t"
| "timeout_of (WaitForSelector sel st t) = t"
| "timeout_of (Click l force t) = t"
| "timeout_of (ExpectVisible l t) = t"
| "timeout_of (ExpectNotVisible l t) = t"
| "timeout_of ev = None"

text \<open>The timeout that each script passes to page.goto, by the script's file name.\<close>

definition goto_timeout :: "string \<Rightarrow> int option" where
  "goto_timeout name =
     (if name = ''verify_history.py'' then Some 30000
      else if name = ''verification/verify_script_v2.py'' then Some 20000
      else None)"

text \<open>
  The calls that are given a timeout of 10000 ms, each with its script: verify_contact.py
  line 19, verify_fix_v2.py line 29, verify_frontend.py line 16, verify_history.py line 29,
  verify_setup.py line 29, verify_rotate.py lines 14 and 34.
\<close>

definition ten_second_waits :: "(string \<times> event) list" where
  "ten_second_waits = [
     (''verify_contact.py'', ExpectVisible (ByLabel ''Settings'') (Some 10000)),
     (''verify_fix_v2.py'', ExpectNotVisible (Css ''#loading-screen'') (Some 10000)),
     (''verify_frontend.py'', WaitForSelector ''#loading-screen'' (Some ''hidden'') (Some 10000)),
     (''verify_history.py'', WaitForSelector ''text=Pedro Pathing Visualizer'' None (Some 10000)),
     (''verification/verify_setup.py'',
        WaitForSelector ''text=Select Your AutoPaths Directory'' None (Some 10000)),
     (''verification/verify_rotate.py'', WaitForSelector ''text=Path 1'' None (Some 10000)),
     (''verification/verify_rotate.py'',
        WaitForSelector ''text=Path 1'' (Some ''visible'') (Some 10000))]"

text \<open>
  What the script called name does about deadlines: its goto timeout, no timeout on
  wait_for_load_state, and 10000 ms only on the waits listed for it.
\<close>

definition nav_waits :: "string \<Rightarrow> event \<Rightarrow> bool" where
  "nav_waits name ev =
     (case ev of
        Goto u t \<Rightarrow> t = goto_timeout name
      | WaitForLoadState st t \<Rightarrow> t = None
      | _ \<Rightarrow> (timeout_of ev = Some 10000 \<longrightarrow> (name, ev) \<in> set ten_second_waits))"

subsection \<open>Reads of a computed style\<close>

text \<open>The two reads of verify_timeline_hover.py and the hover between them.\<close>

definition marker_read :: event where
  "marker_read = EvaluateOn (First (Css ''div[role=\"button\"][aria-label]''))
                   ''el => window.getComputedStyle(el).opacity''"

definition tooltip_read :: event where
  "tooltip_read = EvaluateOn (First (Within (First (Css ''div[role=\"button\"][aria-label]'')) ''div''))
                    ''el => window.getComputedStyle(el).opacity''"

definition marker_hover :: event where
  "marker_hover = Hover (First (Css ''div[role=\"button\"][aria-label]'')) True"

text \<open>A call that evaluates JavaScript reading a computed style.\<close>

fun is_style_read :: "event \<Rightarrow> bool" where
  "is_style_read (EvaluateOn l js) = contains ''getComputedStyle'' js"
| "is_style_read (Evaluate js) = contains ''getComputedStyle'' js"
| "is_style_read ev = False"

definition style_in :: "event list \<Rightarrow> event \<Rightarrow> bool" where
  "style_in allowed ev = (is_style_read ev \<longrightarrow> ev \<in> set allowed)"

text \<open>Both together, for one script.\<close>

definition script_calls :: "string \<Rightarrow> event list \<Rightarrow> event \<Rightarrow> bool" where
  "script_calls name allowed ev = (nav_waits name ev \<and> style_in allowed ev)"

subsection \<open>How a block can end\<close>

text \<open>\<open>completes m\<close>: m always runs to its end: no exception, exit or return leaves it.\<close>

definition completes :: "'a prog \<Rightarrow> bool" where
  "completes m = (\<forall>w. \<exists>x w'. m w = (Inr x, w'))"

text \<open>\<open>raises_only m\<close>: m ends normally or with an exception, never by exit or return.\<close>

definition raises_only :: "'a prog \<Rightarrow> bool" where
  "raises_only m =
     (\<forall>w. case fst (m w) of Inl (SysExit n) \<Rightarrow> False | Inl Return \<Rightarrow> False | _ \<Rightarrow> True)"


text \<open>A driver given by a table: the listed calls get the listed reply, all others the reply given last.\<close>

definition scripted :: "(event \<times> reply) list \<Rightarrow> reply \<Rightarrow> env" where
  "scripted table other =
     env_of (\<lambda>h c. case map_of table c of Some r \<Rightarrow> r | None \<Rightarrow> other)"

text \<open>The reply of a call that succeeds and finds what it looks for: visible, count 1.\<close>

definition found :: reply where
  "found = Reply None True 1 None"

subsection \<open>The browser session of a run\<close>






subsection \<open>Exit codes\<close>

text \<open>In the environment e, none of the listed calls ever raises.\<close>

definition quiet_on :: "env \<Rightarrow> event list \<Rightarrow> bool" where
  "quiet_on e evs = (\<forall>ev \<in> set evs. \<forall>h. raises (driver e h ev) = None)"

text \<open>\<open>calm e m\<close>: run in the environment e, m always runs to its end.\<close>

definition calm :: "env \<Rightarrow> 'a prog \<Rightarrow> bool" where
  "calm e m =
     (\<forall>w. environment w = e \<longrightarrow> (\<exists>x w'. m w = (Inr x, w') \<and> environment w' = e))"

text \<open>\<open>reaches ev m\<close>: whenever m runs to its end, ev is in the log.\<close>

definition reaches :: "event \<Rightarrow> 'a prog \<Rightarrow> bool" where
  "reaches ev m = (\<forall>w x w'. m w = (Inr x, w') \<longrightarrow> ev \<in> set (trace w'))"

text \<open>\<open>never_normal m\<close>: m never runs to its end (it always raises, exits or returns).\<close>

definition never_normal :: "'a prog \<Rightarrow> bool" where
  "never_normal m = (\<forall>w x w'. m w \<noteq> (Inr x, w'))"

subsection \<open>The page with the Settings dialog\<close>

text \<open>
  Modelled from the spec: the page of the target web application, whose code is in the
  repository but not under src/. The specification's scenario says of it: a page with a
  dialog labeled "Settings"; after Click("[aria-label=Settings]") the assertion
  Visible("[role=dialog]") passes. The model is the least page that says this: once
  loaded, it shows a control labelled Settings, and a click on that control opens the
  dialog.
\<close>

record page =
  loaded :: bool
  dialog_open :: bool

definition is_settings_control :: "locator \<Rightarrow> bool" where
  "is_settings_control l = (l = ByLabel ''Settings'' \<or> l = Css ''[aria-label=Settings]'')"

definition is_dialog :: "locator \<Rightarrow> bool" where
  "is_dialog l = (l = ByRole ''dialog'' \<or> l = Css ''[role=dialog]'')"

definition page_visible :: "locator \<Rightarrow> page \<Rightarrow> bool" where
  "page_visible l p = (loaded p \<and> (is_settings_control l \<or> (is_dialog l \<and> dialog_open p)))"

fun page_step :: "event \<Rightarrow> page \<Rightarrow> page" where
  "page_step (Goto u t) p = p\<lparr>loaded := True\<rparr>"
| "page_step (Click l force t) p =
     (if loaded p \<and> is_settings_control l then p\<lparr>dialog_open := True\<rparr> else p)"
| "page_step ev p = p"

definition page_after :: "page \<Rightarrow> event list \<Rightarrow> page" where
  "page_after p h = fold page_step h p"

text \<open>
  The driver in front of that page: an expectation of visibility raises when the element
  is not visible, a click raises when there is nothing to click, every other call succeeds.
\<close>

fun page_driver :: "page \<Rightarrow> event list \<Rightarrow> event \<Rightarrow> reply" where
  "page_driver p h (ExpectVisible l t) =
     (if page_visible l (page_after p h) then quiet else raising AssertionMismatch)"
| "page_driver p h (Click l force t) =
     (if page_visible l (page_after p h) then quiet else raising ElementNotFound)"
| "page_driver p h ev = quiet"

definition page_env :: "page \<Rightarrow> env" where
  "page_env p = env_of (page_driver p)"

datatype verdict = Pass | Fail

text \<open>The verdict of an assertion made after the calls h: Pass when the driver does not raise.\<close>

definition verdict_of :: "env \<Rightarrow> event list \<Rightarrow> event \<Rightarrow> verdict" where
  "verdict_of e h ev = (case raises (driver e h ev) of None \<Rightarrow> Pass | Some err \<Rightarrow> Fail)"

lemmas prog_defs =
  return_def bind_def skip_def when_do_def emit_def print_def sleep_def call_def do_call_def
  ask_flag_def ask_number_def ask_text_def raise_def sys_exit_def return_now_def
  try_except_def try_except_all_def try_finally_def call_fn_def with_playwright_def
  run_script_def exit_code_def log_of_def

lemmas env_defs = quiet_def raising_def env_of_def failing_at_def all_visible_def


section \<open>Rules for what a program adds to the log\<close>

lemma emits_onlyD:
  "emits_only ok m \<Longrightarrow> \<exists>new. trace (snd (m w)) = trace w @ new \<and> list_all ok new
               \<and> environment (snd (m w)) = environment w"
  by (simp add: emits_only_def)

lemma emits_step:
  "emits_only ok m \<Longrightarrow> m w = (r, w1) \<Longrightarrow>
     \<exists>new. trace w1 = trace w @ new \<and> list_all ok new \<and> environment w1 = environment w"
  using emits_onlyD[of ok m w] by simp

lemma emits_then:
  assumes "emits_only ok m" and "m w = (r, w1)" and "emits_only ok k"
  shows "\<exists>new. trace (snd (k w1)) = trace w @ new \<and> list_all ok new
               \<and> environment (snd (k w1)) = environment w"
proof -
  from emits_step[OF assms(1,2)] obtain n1 where
    n1: "trace w1 = trace w @ n1" "list_all ok n1" "environment w1 = environment w" by auto
  from emits_onlyD[OF assms(3), of w1] obtain n2 where
    "trace (snd (k w1)) = trace w1 @ n2" "list_all ok n2"
    "environment (snd (k w1)) = environment w1" by auto
  with n1 show ?thesis by simp
qed

lemma emits_mono:
  "emits_only ok m \<Longrightarrow> (\<And>ev. ok ev \<Longrightarrow> ok' ev) \<Longrightarrow> emits_only ok' m"
  unfolding emits_only_def using list.pred_mono_strong by metis

lemma emits_return: "emits_only ok (return x)"
  by (simp add: emits_only_def return_def)

lemma emits_bind:
  assumes "emits_only ok m" and "\<forall>x. emits_only ok (f x)"
  shows "emits_only ok (bind m f)"
  unfolding emits_only_def
proof
  fix w
  obtain r w1 where mw: "m w = (r, w1)" by (cases "m w")
  show "\<exists>new. trace (snd (bind m f w)) = trace w @ new \<and> list_all ok new
               \<and> environment (snd (bind m f w)) = environment w"
  proof (cases r)
    case (Inl a)
    then show ?thesis using mw emits_step[OF assms(1) mw] by (simp add: bind_def)
  next
    case (Inr x)
    from assms(2) have "emits_only ok (f x)" by simp
    from emits_then[OF assms(1) mw this] show ?thesis using Inr mw by (simp add: bind_def)
  qed
qed

lemma emits_seq: "list_all (emits_only ok) ms \<Longrightarrow> emits_only ok (seq ms)"
  by (induction ms) (simp_all add: emits_return emits_bind)

lemma emits_emit: "ok ev \<Longrightarrow> emits_only ok (emit ev)"
  by (simp add: emits_only_def emit_def)

lemma emits_call: "ok ev \<Longrightarrow> emits_only ok (call ev)"
  by (simp add: emits_only_def call_def Let_def split: option.splits)

lemma emits_skip: "emits_only ok skip"
  by (simp add: skip_def emits_return)

lemma emits_when: "(b \<Longrightarrow> emits_only ok m) \<Longrightarrow> emits_only ok (when_do b m)"
  by (simp add: when_do_def emits_skip)

lemma emits_print: "ok (Print s) \<Longrightarrow> emits_only ok (print s)"
  by (simp add: print_def emits_emit)

lemma emits_sleep: "ok (Sleep n) \<Longrightarrow> emits_only ok (sleep n)"
  by (simp add: sleep_def emits_emit)

lemma emits_do_call: "ok ev \<Longrightarrow> emits_only ok (do_call ev)"
  by (simp add: do_call_def emits_bind emits_call emits_return)

lemma emits_ask_flag: "ok ev \<Longrightarrow> emits_only ok (ask_flag ev)"
  by (simp add: ask_flag_def emits_bind emits_call emits_return)

lemma emits_ask_number: "ok ev \<Longrightarrow> emits_only ok (ask_number ev)"
  by (simp add: ask_number_def emits_bind emits_call emits_return)

lemma emits_ask_text: "ok ev \<Longrightarrow> emits_only ok (ask_text ev)"
  by (simp add: ask_text_def emits_bind emits_call emits_return)

lemma emits_raise: "emits_only ok (raise e)"
  by (simp add: emits_only_def raise_def)

lemma emits_sys_exit: "emits_only ok (sys_exit n)"
  by (simp add: emits_only_def sys_exit_def)

lemma emits_return_now: "emits_only ok return_now"
  by (simp add: emits_only_def return_now_def)

lemma emits_try_except:
  assumes "emits_only ok body" and "\<forall>e. emits_only ok (handler e)"
  shows "emits_only ok (try_except body handler)"
  unfolding emits_only_def
proof
  fix w
  obtain r w1 where bw: "body w = (r, w1)" by (cases "body w")
  have h: "\<And>e. \<exists>new. trace (snd (handler e w1)) = trace w @ new \<and> list_all ok new
               \<and> environment (snd (handler e w1)) = environment w"
    using emits_then[OF assms(1) bw] assms(2) by blast
  show "\<exists>new. trace (snd (try_except body handler w)) = trace w @ new \<and> list_all ok new
               \<and> environment (snd (try_except body handler w)) = environment w"
    using emits_step[OF assms(1) bw] h bw
    by (auto simp: try_except_def split: sum.splits abrupt.splits)
qed

lemma emits_try_except_all:
  assumes "emits_only ok body" and "emits_only ok handler"
  shows "emits_only ok (try_except_all body handler)"
  unfolding emits_only_def
proof
  fix w
  obtain r w1 where bw: "body w = (r, w1)" by (cases "body w")
  show "\<exists>new. trace (snd (try_except_all body handler w)) = trace w @ new \<and> list_all ok new
               \<and> environment (snd (try_except_all body handler w)) = environment w"
    using emits_step[OF assms(1) bw] emits_then[OF assms(1) bw assms(2)] bw
    by (auto simp: try_except_all_def split: sum.splits abrupt.splits)
qed

lemma emits_try_finally:
  assumes "emits_only ok body" and "emits_only ok fin"
  shows "emits_only ok (try_finally body fin)"
  unfolding emits_only_def
proof
  fix w
  obtain r w1 where bw: "body w = (r, w1)" by (cases "body w")
  obtain r2 w2 where fw: "fin w1 = (r2, w2)" by (cases "fin w1")
  show "\<exists>new. trace (snd (try_finally body fin w)) = trace w @ new \<and> list_all ok new
               \<and> environment (snd (try_finally body fin w)) = environment w"
    using emits_then[OF assms(1) bw assms(2)] bw fw
    by (auto simp: try_finally_def split: sum.splits)
qed

lemma emits_call_fn: "emits_only ok body \<Longrightarrow> emits_only ok (call_fn body)"
  unfolding emits_only_def call_fn_def
  by (auto split: prod.splits sum.splits abrupt.splits) (metis snd_conv)+

lemma emits_with_playwright:
  "ok PlaywrightStart \<Longrightarrow> ok PlaywrightStop \<Longrightarrow> emits_only ok body
     \<Longrightarrow> emits_only ok (with_playwright body)"
  by (simp add: with_playwright_def emits_bind emits_do_call emits_try_finally)

lemma emits_click_or_force:
  "ok (Click l False t) \<Longrightarrow> ok (Click l True None) \<Longrightarrow> emits_only ok (click_or_force l t)"
  by (simp add: click_or_force_def emits_try_except_all emits_do_call)

lemma emits_goto_file:
  "\<forall>p. ok (Goto (''file://'' @ p) None) \<Longrightarrow> emits_only ok (goto_file rel)"
  unfolding emits_only_def goto_file_def
  using emits_do_call[of ok, unfolded emits_only_def] by blast

lemma emits_screenshot_at:
  assumes "\<forall>p. ok (Screenshot p)" and "\<forall>s. ok (Print s)"
  shows "emits_only ok (screenshot_at rel)"
proof -
  have "\<And>p q. emits_only ok (seq [do_call (Screenshot p), print q])"
    using assms by (simp add: emits_bind emits_return emits_do_call emits_print)
  then show ?thesis
    unfolding emits_only_def screenshot_at_def by blast
qed

lemma emits_to_float: "emits_only ok (to_float s)"
  by (simp add: emits_only_def to_float_def raise_def return_def split: option.splits)

lemma emits_print_float: "\<forall>s. ok (Print s) \<Longrightarrow> emits_only ok (print_float l x)"
  unfolding emits_only_def print_float_def
  using emits_print[of ok, unfolded emits_only_def] by blast

lemma emits_log: "emits_only ok s \<Longrightarrow> list_all ok (log_of s e)"
  using emits_onlyD[of ok s "\<lparr>environment = e, trace = []\<rparr>"]
  by (auto simp: log_of_def run_script_def)

lemma emits_log_mem: "emits_only ok s \<Longrightarrow> ev \<in> set (log_of s e) \<Longrightarrow> ok ev"
  using emits_log[of ok s e] by (simp add: list_all_iff)

lemmas emits_rules =
  emits_return emits_bind emits_skip emits_when emits_print emits_sleep
  emits_do_call emits_ask_flag emits_ask_number emits_ask_text emits_raise emits_sys_exit
  emits_return_now emits_try_except emits_try_except_all emits_try_finally emits_call_fn
  emits_with_playwright emits_click_or_force emits_goto_file emits_screenshot_at
  emits_to_float emits_print_float

section \<open>Rules for how a block can end\<close>

lemma raises_onlyI:
  "(\<And>w. (\<exists>x. fst (m w) = Inr x) \<or> (\<exists>e. fst (m w) = Inl (Raise e))) \<Longrightarrow> raises_only m"
  unfolding raises_only_def
proof
  fix w
  assume a: "\<And>w. (\<exists>x. fst (m w) = Inr x) \<or> (\<exists>e. fst (m w) = Inl (Raise e))"
  from a[of w] show "case fst (m w) of Inl (SysExit n) \<Rightarrow> False | Inl Return \<Rightarrow> False | _ \<Rightarrow> True"
    by auto
qed

lemma raises_onlyD:
  "raises_only m \<Longrightarrow> (\<exists>x. fst (m w) = Inr x) \<or> (\<exists>e. fst (m w) = Inl (Raise e))"
  unfolding raises_only_def
  by (erule allE[of _ w]) (auto split: sum.splits abrupt.splits)

lemma raises_only_return: "raises_only (return x)"
  by (simp add: raises_only_def return_def)

lemma raises_only_bind:
  assumes "raises_only m" and "\<forall>x. raises_only (f x)"
  shows "raises_only (bind m f)"
proof (rule raises_onlyI)
  fix w
  obtain r w1 where mw: "m w = (r, w1)" by (cases "m w")
  from raises_onlyD[OF assms(1), of w] mw
  have "(\<exists>x. r = Inr x) \<or> (\<exists>e. r = Inl (Raise e))" by simp
  then show "(\<exists>x. fst (bind m f w) = Inr x) \<or> (\<exists>e. fst (bind m f w) = Inl (Raise e))"
  proof
    assume "\<exists>x. r = Inr x"
    then obtain x where "r = Inr x" ..
    with mw have "bind m f w = f x w1" by (simp add: bind_def)
    moreover from assms(2) have "raises_only (f x)" ..
    ultimately show ?thesis using raises_onlyD[of "f x" w1] by simp
  next
    assume "\<exists>e. r = Inl (Raise e)"
    with mw show ?thesis by (auto simp: bind_def)
  qed
qed

lemma raises_only_emit: "raises_only (emit ev)"
  by (simp add: raises_only_def emit_def)

lemma raises_only_call: "raises_only (call ev)"
  by (simp add: raises_only_def call_def Let_def split: option.splits)

lemma raises_only_skip: "raises_only skip"
  by (simp add: skip_def raises_only_return)

lemma raises_only_when: "(b \<Longrightarrow> raises_only m) \<Longrightarrow> raises_only (when_do b m)"
  by (simp add: when_do_def raises_only_skip)

lemma raises_only_print: "raises_only (print s)"
  by (simp add: print_def raises_only_emit)

lemma raises_only_sleep: "raises_only (sleep n)"
  by (simp add: sleep_def raises_only_emit)

lemma raises_only_do_call: "raises_only (do_call ev)"
  by (simp add: do_call_def raises_only_bind raises_only_call raises_only_return)

lemma raises_only_ask_flag: "raises_only (ask_flag ev)"
  by (simp add: ask_flag_def raises_only_bind raises_only_call raises_only_return)

lemma raises_only_ask_number: "raises_only (ask_number ev)"
  by (simp add: ask_number_def raises_only_bind raises_only_call raises_only_return)

lemma raises_only_ask_text: "raises_only (ask_text ev)"
  by (simp add: ask_text_def raises_only_bind raises_only_call raises_only_return)

lemma raises_only_raise: "raises_only (raise e)"
  by (simp add: raises_only_def raise_def)

lemma raises_only_call_fn:
  assumes "\<And>w. case fst (body w) of Inl (SysExit n) \<Rightarrow> False | _ \<Rightarrow> True"
  shows "raises_only (call_fn body)"
proof (rule raises_onlyI)
  fix w
  obtain r w1 where bw: "body w = (r, w1)" by (cases "body w")
  from assms[of w] bw
  show "(\<exists>x. fst (call_fn body w) = Inr x) \<or> (\<exists>e. fst (call_fn body w) = Inl (Raise e))"
    by (auto simp: call_fn_def split: sum.splits abrupt.splits)
qed

lemma raises_only_call_fn_plain: "raises_only body \<Longrightarrow> raises_only (call_fn body)"
proof (rule raises_only_call_fn)
  fix w
  assume "raises_only body"
  from raises_onlyD[OF this, of w]
  show "case fst (body w) of Inl (SysExit n) \<Rightarrow> False | _ \<Rightarrow> True" by auto
qed

lemma raises_only_try_except:
  assumes "raises_only body" and "\<forall>e. raises_only (handler e)"
  shows "raises_only (try_except body handler)"
proof (rule raises_onlyI)
  fix w
  obtain r w1 where bw: "body w = (r, w1)" by (cases "body w")
  from raises_onlyD[OF assms(1), of w] bw
  have "(\<exists>x. r = Inr x) \<or> (\<exists>e. r = Inl (Raise e))" by simp
  then show "(\<exists>x. fst (try_except body handler w) = Inr x)
           \<or> (\<exists>e. fst (try_except body handler w) = Inl (Raise e))"
  proof
    assume "\<exists>x. r = Inr x"
    with bw show ?thesis by (auto simp: try_except_def)
  next
    assume "\<exists>e. r = Inl (Raise e)"
    then obtain e where "r = Inl (Raise e)" ..
    with bw have "try_except body handler w = handler e w1" by (simp add: try_except_def)
    moreover from assms(2) have "raises_only (handler e)" ..
    ultimately show ?thesis using raises_onlyD[of "handler e" w1] by simp
  qed
qed

lemma raises_only_try_except_all:
  assumes "raises_only body" and "raises_only handler"
  shows "raises_only (try_except_all body handler)"
proof (rule raises_onlyI)
  fix w
  obtain r w1 where bw: "body w = (r, w1)" by (cases "body w")
  from raises_onlyD[OF assms(1), of w] bw
  have "(\<exists>x. r = Inr x) \<or> (\<exists>e. r = Inl (Raise e))" by simp
  then show "(\<exists>x. fst (try_except_all body handler w) = Inr x)
           \<or> (\<exists>e. fst (try_except_all body handler w) = Inl (Raise e))"
  proof
    assume "\<exists>x. r = Inr x"
    with bw show ?thesis by (auto simp: try_except_all_def)
  next
    assume "\<exists>e. r = Inl (Raise e)"
    then obtain e where "r = Inl (Raise e)" ..
    with bw have "try_except_all body handler w = handler w1"
      by (simp add: try_except_all_def)
    then show ?thesis using raises_onlyD[OF assms(2), of w1] by simp
  qed
qed

lemma raises_only_click_or_force: "raises_only (click_or_force l t)"
  by (simp add: click_or_force_def raises_only_try_except_all raises_only_do_call)

lemmas raises_only_rules =
  raises_only_return raises_only_bind raises_only_skip raises_only_when raises_only_print
  raises_only_sleep raises_only_do_call raises_only_ask_flag raises_only_ask_number
  raises_only_ask_text raises_only_raise raises_only_call_fn_plain raises_only_try_except
  raises_only_try_except_all raises_only_click_or_force

lemma completesD: "completes m \<Longrightarrow> \<exists>x w'. m w = (Inr x, w')"
  by (simp add: completes_def)

lemma completes_return: "completes (return x)"
  by (simp add: completes_def return_def)

lemma completes_bind:
  assumes "completes m" and "\<forall>x. completes (f x)"
  shows "completes (bind m f)"
  unfolding completes_def
proof
  fix w
  from completesD[OF assms(1), of w] obtain x w1 where mw: "m w = (Inr x, w1)" by blast
  from assms(2) have "completes (f x)" ..
  from completesD[OF this, of w1] mw
  show "\<exists>y w'. bind m f w = (Inr y, w')" by (simp add: bind_def)
qed

lemma completes_print: "completes (print s)"
  by (simp add: completes_def print_def emit_def)

lemma completes_sleep: "completes (sleep n)"
  by (simp add: completes_def sleep_def emit_def)

lemma completes_skip: "completes skip"
  by (simp add: skip_def completes_return)

lemma completes_try_except:
  assumes "raises_only body" and "\<forall>e. completes (handler e)"
  shows "completes (try_except body handler)"
  unfolding completes_def
proof
  fix w
  obtain r w1 where bw: "body w = (r, w1)" by (cases "body w")
  from raises_onlyD[OF assms(1), of w] bw
  have "(\<exists>x. r = Inr x) \<or> (\<exists>e. r = Inl (Raise e))" by simp
  then show "\<exists>x w'. try_except body handler w = (Inr x, w')"
  proof
    assume "\<exists>x. r = Inr x"
    with bw show ?thesis by (auto simp: try_except_def)
  next
    assume "\<exists>e. r = Inl (Raise e)"
    then obtain e where "r = Inl (Raise e)" ..
    with bw have "try_except body handler w = handler e w1" by (simp add: try_except_def)
    moreover from assms(2) have "completes (handler e)" ..
    ultimately show ?thesis using completesD[of "handler e" w1] by simp
  qed
qed

lemmas completes_rules =
  completes_return completes_bind completes_print completes_sleep completes_skip
  completes_try_except

section \<open>Single driver calls\<close>

lemma do_call_run:
  "do_call ev w =
     (case raises (driver (environment w) (trace w) ev) of
        Some e \<Rightarrow> (Inl (Raise e), w\<lparr>trace := trace w @ [ev]\<rparr>)
      | None \<Rightarrow> (Inr (), w\<lparr>trace := trace w @ [ev]\<rparr>))"
  by (simp add: do_call_def bind_def call_def return_def Let_def split: option.splits)



section \<open>The session a script sets up\<close>











section \<open>Rules for exit codes\<close>

lemma raises_only_try_finally:
  assumes "raises_only body" and "raises_only fin"
  shows "raises_only (try_finally body fin)"
proof (rule raises_onlyI)
  fix w
  obtain r w1 where bw: "body w = (r, w1)" by (cases "body w")
  obtain r2 w2 where fw: "fin w1 = (r2, w2)" by (cases "fin w1")
  from raises_onlyD[OF assms(1), of w] bw
  have b: "(\<exists>x. r = Inr x) \<or> (\<exists>e. r = Inl (Raise e))" by simp
  from raises_onlyD[OF assms(2), of w1] fw
  have f: "(\<exists>x. r2 = Inr x) \<or> (\<exists>e. r2 = Inl (Raise e))" by simp
  from b f bw fw
  show "(\<exists>x. fst (try_finally body fin w) = Inr x)
      \<or> (\<exists>e. fst (try_finally body fin w) = Inl (Raise e))"
    by (auto simp: try_finally_def)
qed

lemma raises_only_with_playwright: "raises_only body \<Longrightarrow> raises_only (with_playwright body)"
  by (simp add: with_playwright_def raises_only_bind raises_only_do_call raises_only_try_finally)

lemma calmD: "calm e m \<Longrightarrow> environment w = e \<Longrightarrow> \<exists>x w'. m w = (Inr x, w') \<and> environment w' = e"
  by (simp add: calm_def)

lemma calm_return: "calm e (return x)"
  by (simp add: calm_def return_def)

lemma calm_bind:
  assumes "calm e m" and "\<forall>x. calm e (f x)"
  shows "calm e (bind m f)"
  unfolding calm_def
proof (intro allI impI)
  fix w :: world
  assume "environment w = e"
  from calmD[OF assms(1) this] obtain x w1 where
    mw: "m w = (Inr x, w1)" and e1: "environment w1 = e" by blast
  from assms(2) have "calm e (f x)" ..
  from calmD[OF this e1] mw
  show "\<exists>y w'. bind m f w = (Inr y, w') \<and> environment w' = e" by (simp add: bind_def)
qed

lemma calm_print: "calm e (print s)"
  by (simp add: calm_def print_def emit_def)

lemma calm_sleep: "calm e (sleep n)"
  by (simp add: calm_def sleep_def emit_def)

lemma calm_do_call: "\<forall>h. raises (driver e h ev) = None \<Longrightarrow> calm e (do_call ev)"
  by (simp add: calm_def do_call_run)

lemma calm_try_except:
  assumes "raises_only body" and "emits_only (\<lambda>ev. True) body" and "\<forall>err. calm e (handler err)"
  shows "calm e (try_except body handler)"
  unfolding calm_def
proof (intro allI impI)
  fix w :: world
  assume ew: "environment w = e"
  obtain r w1 where bw: "body w = (r, w1)" by (cases "body w")
  from emits_step[OF assms(2) bw] ew have e1: "environment w1 = e" by auto
  from raises_onlyD[OF assms(1), of w] bw
  have "(\<exists>x. r = Inr x) \<or> (\<exists>err. r = Inl (Raise err))" by simp
  then show "\<exists>x w'. try_except body handler w = (Inr x, w') \<and> environment w' = e"
  proof
    assume "\<exists>x. r = Inr x"
    with bw e1 show ?thesis by (auto simp: try_except_def)
  next
    assume "\<exists>err. r = Inl (Raise err)"
    then obtain err where "r = Inl (Raise err)" ..
    with bw have "try_except body handler w = handler err w1" by (simp add: try_except_def)
    moreover from assms(3) have "calm e (handler err)" ..
    ultimately show ?thesis using calmD[of e "handler err" w1] e1 by simp
  qed
qed

lemma calm_try_finally:
  assumes "calm e body" and "calm e fin"
  shows "calm e (try_finally body fin)"
  unfolding calm_def
proof (intro allI impI)
  fix w :: world
  assume "environment w = e"
  from calmD[OF assms(1) this] obtain x w1 where
    bw: "body w = (Inr x, w1)" and e1: "environment w1 = e" by blast
  from calmD[OF assms(2) e1] obtain y w2 where
    fw: "fin w1 = (Inr y, w2)" and e2: "environment w2 = e" by blast
  from bw fw e2
  show "\<exists>x w'. try_finally body fin w = (Inr x, w') \<and> environment w' = e"
    by (simp add: try_finally_def)
qed

lemma calm_with_playwright:
  "\<forall>h. raises (driver e h PlaywrightStart) = None \<Longrightarrow>
   \<forall>h. raises (driver e h PlaywrightStop) = None \<Longrightarrow> calm e body
     \<Longrightarrow> calm e (with_playwright body)"
  by (simp add: with_playwright_def calm_bind calm_do_call calm_try_finally)

lemma calm_exit_code: "calm e s \<Longrightarrow> exit_code s e = 0"
  using calmD[of e s "\<lparr>environment = e, trace = []\<rparr>"]
  by (auto simp: exit_code_def run_script_def)

lemmas calm_rules =
  calm_return calm_bind calm_print calm_sleep calm_do_call calm_try_except calm_try_finally
  calm_with_playwright

lemma never_normal_raise: "never_normal (raise e)"
  by (simp add: never_normal_def raise_def)

lemma never_normal_bind_left: "never_normal m \<Longrightarrow> never_normal (bind m f)"
  by (auto simp: never_normal_def bind_def split: prod.splits sum.splits)

lemma never_normal_bind_right: "\<forall>x. never_normal (f x) \<Longrightarrow> never_normal (bind m f)"
  by (auto simp: never_normal_def bind_def split: prod.splits sum.splits)

lemma reaches_print: "reaches (Print s) (print s)"
  by (auto simp: reaches_def print_def emit_def)

lemma reaches_bind_left:
  assumes "reaches ev m" and "\<forall>x. emits_only (\<lambda>ev. True) (f x)"
  shows "reaches ev (bind m f)"
  unfolding reaches_def
proof (intro allI impI)
  fix w y w'
  assume run: "bind m f w = (Inr y, w')"
  obtain r w1 where mw: "m w = (r, w1)" by (cases "m w")
  with run obtain x where rx: "r = Inr x" and fx: "f x w1 = (Inr y, w')"
    by (cases r) (auto simp: bind_def)
  from assms(1) mw rx have in1: "ev \<in> set (trace w1)" by (auto simp: reaches_def)
  from assms(2) have "emits_only (\<lambda>ev. True) (f x)" ..
  from emits_step[OF this fx] in1 show "ev \<in> set (trace w')" by auto
qed

lemma reaches_bind_right: "\<forall>x. reaches ev (f x) \<Longrightarrow> reaches ev (bind m f)"
  unfolding reaches_def bind_def
  by (auto split: prod.splits sum.splits)

lemma reaches_try_except:
  assumes "reaches ev body" and "\<forall>err. never_normal (handler err)"
  shows "reaches ev (try_except body handler)"
  unfolding reaches_def
proof (intro allI impI)
  fix w y w'
  assume run: "try_except body handler w = (Inr y, w')"
  obtain r w1 where bw: "body w = (r, w1)" by (cases "body w")
  from assms(2) have nn: "\<And>err. handler err w1 \<noteq> (Inr y, w')"
    by (simp add: never_normal_def)
  from run bw nn have "body w = (Inr y, w')"
    by (auto simp: try_except_def split: sum.splits abrupt.splits)
  with assms(1) show "ev \<in> set (trace w')" by (auto simp: reaches_def)
qed

lemma reaches_try_finally:
  assumes "reaches ev body" and "emits_only (\<lambda>ev. True) fin"
  shows "reaches ev (try_finally body fin)"
  unfolding reaches_def
proof (intro allI impI)
  fix w y w'
  assume run: "try_finally body fin w = (Inr y, w')"
  obtain r w1 where bw: "body w = (r, w1)" by (cases "body w")
  obtain r2 w2 where fw: "fin w1 = (r2, w2)" by (cases "fin w1")
  from run bw fw have r: "r = Inr y" and w2: "w2 = w'"
    by (auto simp: try_finally_def split: sum.splits)
  from assms(1) bw r have in1: "ev \<in> set (trace w1)" by (auto simp: reaches_def)
  from emits_step[OF assms(2) fw] in1 w2 show "ev \<in> set (trace w')" by auto
qed

lemma reaches_with_playwright:
  "reaches ev body \<Longrightarrow> reaches ev (with_playwright body)"
  by (simp add: with_playwright_def reaches_bind_right reaches_try_finally emits_do_call)

lemma reaches_exit_code:
  assumes "raises_only s" and "reaches ev s" and "exit_code s e = 0"
  shows "ev \<in> set (log_of s e)"
proof -
  let ?w = "\<lparr>environment = e, trace = []\<rparr>"
  obtain r w' where run: "s ?w = (r, w')" by (cases "s ?w")
  from raises_onlyD[OF assms(1), of ?w] run
  have "(\<exists>x. r = Inr x) \<or> (\<exists>err. r = Inl (Raise err))" by simp
  moreover from assms(3) run have "exit_code_of r = 0"
    by (simp add: exit_code_def run_script_def)
  ultimately obtain x where "r = Inr x" by auto
  with assms(2) run have "ev \<in> set (trace w')" by (auto simp: reaches_def)
  with run show ?thesis by (simp add: log_of_def run_script_def)
qed

section \<open>The page.goto calls of each script\<close>

lemmas goto_defs = goto_http_def http_urls_def goto_timeouts_def

lemmas calls_defs =
  goto_defs script_calls_def nav_waits_def goto_timeout_def ten_second_waits_def style_in_def
  marker_read_def tooltip_read_def

lemma calls_verify_contact:
  "emits_only (\<lambda>ev. goto_http ev \<and> script_calls ''verify_contact.py'' [] ev) verify_contact"
  by (simp add: verify_contact_def verify_contact_section_def emits_rules calls_defs)

lemma goto_verify_contact: "emits_only goto_http verify_contact"
  by (rule emits_mono[OF calls_verify_contact]) simp

lemma waits_verify_contact: "emits_only (script_calls ''verify_contact.py'' []) verify_contact"
  by (rule emits_mono[OF calls_verify_contact]) simp

lemma calls_verify_filemanager_sort:
  "emits_only (\<lambda>ev. goto_http ev \<and> script_calls ''verify_filemanager_sort.py'' [] ev) verify_filemanager_sort"
  by (simp add: verify_filemanager_sort_def verify_recent_files_sort_def emits_rules calls_defs)

lemma goto_verify_filemanager_sort: "emits_only goto_http verify_filemanager_sort"
  by (rule emits_mono[OF calls_verify_filemanager_sort]) simp

lemma waits_verify_filemanager_sort: "emits_only (script_calls ''verify_filemanager_sort.py'' []) verify_filemanager_sort"
  by (rule emits_mono[OF calls_verify_filemanager_sort]) simp

lemma calls_verify_fix_v2:
  "emits_only (\<lambda>ev. goto_http ev \<and> script_calls ''verify_fix_v2.py'' [] ev) verify_fix_v2"
  by (simp add: verify_fix_v2_def verify_fix_v2_run_def verify_fix_v2_dismiss_def
        emits_rules calls_defs)

lemma goto_verify_fix_v2: "emits_only goto_http verify_fix_v2"
  by (rule emits_mono[OF calls_verify_fix_v2]) simp

lemma waits_verify_fix_v2: "emits_only (script_calls ''verify_fix_v2.py'' []) verify_fix_v2"
  by (rule emits_mono[OF calls_verify_fix_v2]) simp

lemma calls_verify_font_size:
  "emits_only (\<lambda>ev. goto_http ev \<and> script_calls ''verify_font_size.py'' [] ev) verify_font_size"
  by (simp add: verify_font_size_def verify_font_size_run_def emits_rules calls_defs)

lemma goto_verify_font_size: "emits_only goto_http verify_font_size"
  by (rule emits_mono[OF calls_verify_font_size]) simp

lemma waits_verify_font_size: "emits_only (script_calls ''verify_font_size.py'' []) verify_font_size"
  by (rule emits_mono[OF calls_verify_font_size]) simp

lemma calls_verify_frontend:
  "emits_only (\<lambda>ev. goto_http ev \<and> script_calls ''verify_frontend.py'' [] ev) verify_frontend"
  by (simp add: verify_frontend_def verify_frontend_dismiss_def check_label_association_def
        emits_rules calls_defs)

lemma goto_verify_frontend: "emits_only goto_http verify_frontend"
  by (rule emits_mono[OF calls_verify_frontend]) simp

lemma waits_verify_frontend: "emits_only (script_calls ''verify_frontend.py'' []) verify_frontend"
  by (rule emits_mono[OF calls_verify_frontend]) simp

lemma calls_verify_history:
  "emits_only (\<lambda>ev. goto_http ev \<and> script_calls ''verify_history.py'' [] ev) verify_history_panel"
  by (simp add: verify_history_panel_def emits_rules calls_defs)

lemma goto_verify_history: "emits_only goto_http verify_history_panel"
  by (rule emits_mono[OF calls_verify_history]) simp

lemma waits_verify_history: "emits_only (script_calls ''verify_history.py'' []) verify_history_panel"
  by (rule emits_mono[OF calls_verify_history]) simp

lemma calls_verify_settings:
  "emits_only (\<lambda>ev. goto_http ev \<and> script_calls ''verify_settings.py'' [] ev) verify_settings"
  by (simp add: verify_settings_def verify_settings_dismiss_def emits_rules calls_defs)

lemma goto_verify_settings: "emits_only goto_http verify_settings"
  by (rule emits_mono[OF calls_verify_settings]) simp

lemma waits_verify_settings: "emits_only (script_calls ''verify_settings.py'' []) verify_settings"
  by (rule emits_mono[OF calls_verify_settings]) simp

lemma calls_capture_screenshot:
  "emits_only (\<lambda>ev. goto_local_file ev \<and> script_calls ''verification/capture_screenshot.py'' [] ev) capture_screenshot"
  by (simp add: capture_screenshot_def emits_rules goto_local_file_def calls_defs)

lemma goto_capture_screenshot: "emits_only goto_local_file capture_screenshot"
  by (rule emits_mono[OF calls_capture_screenshot]) simp

lemma waits_capture_screenshot: "emits_only (script_calls ''verification/capture_screenshot.py'' []) capture_screenshot"
  by (rule emits_mono[OF calls_capture_screenshot]) simp

lemma calls_verify_aria:
  "emits_only (\<lambda>ev. goto_http ev \<and> script_calls ''verification/verify_aria.py'' [] ev) verify_aria_labels"
  by (simp add: verify_aria_labels_def emits_rules calls_defs)

lemma goto_verify_aria: "emits_only goto_http verify_aria_labels"
  by (rule emits_mono[OF calls_verify_aria]) simp

lemma waits_verify_aria: "emits_only (script_calls ''verification/verify_aria.py'' []) verify_aria_labels"
  by (rule emits_mono[OF calls_verify_aria]) simp

lemma calls_verify_command_palette:
  "emits_only (\<lambda>ev. goto_http ev \<and> script_calls ''verification/verify_command_palette.py'' [] ev) verify_command_palette"
  by (simp add: verify_command_palette_def verify_command_palette_fn_def emits_rules calls_defs)

lemma goto_verify_command_palette: "emits_only goto_http verify_command_palette"
  by (rule emits_mono[OF calls_verify_command_palette]) simp

lemma waits_verify_command_palette: "emits_only (script_calls ''verification/verify_command_palette.py'' []) verify_command_palette"
  by (rule emits_mono[OF calls_verify_command_palette]) simp

lemma calls_verify_feature:
  "emits_only (\<lambda>ev. goto_http ev \<and> script_calls ''verification/verify_feature.py'' [] ev) verify_feature"
  by (simp add: verify_feature_def verify_feature_run_def verify_feature_dismiss_whats_new_def
        verify_feature_dismiss_tutorial_def emits_rules calls_defs)

lemma goto_verify_feature: "emits_only goto_http verify_feature"
  by (rule emits_mono[OF calls_verify_feature]) simp

lemma waits_verify_feature: "emits_only (script_calls ''verification/verify_feature.py'' []) verify_feature"
  by (rule emits_mono[OF calls_verify_feature]) simp

lemma calls_verify_focus:
  "emits_only (\<lambda>ev. goto_http ev \<and> script_calls ''verification/verify_focus.py'' [] ev) verify_focus_run"
  by (simp add: verify_focus_run_def emits_rules calls_defs)

lemma goto_verify_focus: "emits_only goto_http verify_focus_run"
  by (rule emits_mono[OF calls_verify_focus]) simp

lemma waits_verify_focus: "emits_only (script_calls ''verification/verify_focus.py'' []) verify_focus_run"
  by (rule emits_mono[OF calls_verify_focus]) simp

lemma calls_verify_rotate:
  "emits_only (\<lambda>ev. goto_http ev \<and> script_calls ''verification/verify_rotate.py'' [] ev) test_add_rotate_features"
  by (simp add: test_add_rotate_features_def emits_rules calls_defs)

lemma goto_verify_rotate: "emits_only goto_http test_add_rotate_features"
  by (rule emits_mono[OF calls_verify_rotate]) simp

lemma waits_verify_rotate: "emits_only (script_calls ''verification/verify_rotate.py'' []) test_add_rotate_features"
  by (rule emits_mono[OF calls_verify_rotate]) simp

lemma calls_verify_script_v2:
  "emits_only (\<lambda>ev. goto_http ev \<and> script_calls ''verification/verify_script_v2.py'' [] ev) verify_path_stats"
  by (simp add: verify_path_stats_def verify_script_v2_dismiss_def emits_rules calls_defs)

lemma goto_verify_script_v2: "emits_only goto_http verify_path_stats"
  by (rule emits_mono[OF calls_verify_script_v2]) simp

lemma waits_verify_script_v2: "emits_only (script_calls ''verification/verify_script_v2.py'' []) verify_path_stats"
  by (rule emits_mono[OF calls_verify_script_v2]) simp

lemma calls_verify_setup:
  "emits_only (\<lambda>ev. goto_http ev \<and> script_calls ''verification/verify_setup.py'' [] ev) verify_setup_dialog"
  by (simp add: verify_setup_dialog_def emits_rules calls_defs)

lemma goto_verify_setup: "emits_only goto_http verify_setup_dialog"
  by (rule emits_mono[OF calls_verify_setup]) simp

lemma waits_verify_setup: "emits_only (script_calls ''verification/verify_setup.py'' []) verify_setup_dialog"
  by (rule emits_mono[OF calls_verify_setup]) simp

lemma calls_verify_timeline:
  "emits_only (\<lambda>ev. goto_http ev \<and> script_calls ''verification/verify_timeline.py'' [] ev) verify_timeline_run"
  by (simp add: verify_timeline_run_def emits_rules calls_defs)

lemma goto_verify_timeline: "emits_only goto_http verify_timeline_run"
  by (rule emits_mono[OF calls_verify_timeline]) simp

lemma waits_verify_timeline: "emits_only (script_calls ''verification/verify_timeline.py'' []) verify_timeline_run"
  by (rule emits_mono[OF calls_verify_timeline]) simp

lemma calls_verify_timeline_hover:
  "emits_only (\<lambda>ev. goto_http ev \<and> script_calls ''verification/verify_timeline_hover.py'' [marker_read, tooltip_read] ev) verify_timeline_hover"
  by (simp add: verify_timeline_hover_def verify_timeline_hover_run_def check_marker_opacity_def
        check_tooltip_initial_def check_tooltip_hover_def emits_rules calls_defs)

lemma goto_verify_timeline_hover: "emits_only goto_http verify_timeline_hover"
  by (rule emits_mono[OF calls_verify_timeline_hover]) simp

lemma waits_verify_timeline_hover: "emits_only (script_calls ''verification/verify_timeline_hover.py'' [marker_read, tooltip_read]) verify_timeline_hover"
  by (rule emits_mono[OF calls_verify_timeline_hover]) simp

lemma calls_verify_whats_new:
  "emits_only (\<lambda>ev. goto_http ev \<and> script_calls ''verification/verify_whats_new.py'' [] ev) verify_whats_new"
  by (simp add: verify_whats_new_def test_whats_new_dialog_def emits_rules calls_defs)

lemma goto_verify_whats_new: "emits_only goto_http verify_whats_new"
  by (rule emits_mono[OF calls_verify_whats_new]) simp

lemma waits_verify_whats_new: "emits_only (script_calls ''verification/verify_whats_new.py'' []) verify_whats_new"
  by (rule emits_mono[OF calls_verify_whats_new]) simp

lemmas goto_scripts =
  goto_verify_contact goto_verify_filemanager_sort goto_verify_fix_v2 goto_verify_font_size
  goto_verify_frontend goto_verify_history goto_verify_settings goto_verify_aria
  goto_verify_command_palette goto_verify_feature goto_verify_focus goto_verify_rotate
  goto_verify_script_v2 goto_verify_setup goto_verify_timeline goto_verify_timeline_hover
  goto_verify_whats_new

text \<open>All scripts but capture_screenshot.py: every goto is one of the http literals.\<close>

lemma goto_http_scripts:
  "(name, s) \<in> set scripts \<Longrightarrow> name \<noteq> ''verification/capture_screenshot.py''
     \<Longrightarrow> emits_only goto_http s"
  by (auto simp: scripts_def goto_scripts)

lemma goto_any_scripts:
  "(name, s) \<in> set scripts \<Longrightarrow> emits_only (\<lambda>ev. goto_http ev \<or> goto_local_file ev) s"
proof (cases "name = ''verification/capture_screenshot.py''")
  case False
  assume "(name, s) \<in> set scripts"
  from goto_http_scripts[OF this False] show ?thesis by (rule emits_mono) simp
next
  case True
  assume "(name, s) \<in> set scripts"
  with True have "s = capture_screenshot" by (auto simp: scripts_def)
  with goto_capture_screenshot show ?thesis by (auto intro: emits_mono)
qed

lemma port_3000: "localhost_port ''http://localhost:3000'' = Some 3000" by code_simp
lemma port_4173: "localhost_port ''http://localhost:4173'' = Some 4173" by code_simp
lemma port_4173_slash: "localhost_port ''http://localhost:4173/'' = Some 4173" by code_simp
lemma port_5173: "localhost_port ''http://localhost:5173'' = Some 5173" by code_simp
lemma port_8080: "localhost_port ''http://localhost:8080'' = Some 8080" by code_simp

lemma http_urls_port: "u \<in> set http_urls \<Longrightarrow> localhost_port u \<in> Some ` set ports"
  by (auto simp: http_urls_def ports_def port_3000 port_4173 port_4173_slash port_5173 port_8080)

lemma http_urls_scheme: "u \<in> set http_urls \<Longrightarrow> url_scheme u = ''http''"
  by (auto simp: http_urls_def url_scheme_def)

lemma file_url_scheme: "url_scheme (''file://'' @ p) = ''file''"
  by (simp add: url_scheme_def)

lemmas waits_scripts =
  waits_verify_contact waits_verify_filemanager_sort waits_verify_fix_v2 waits_verify_font_size
  waits_verify_frontend waits_verify_history waits_verify_settings waits_capture_screenshot
  waits_verify_aria waits_verify_command_palette waits_verify_feature waits_verify_focus
  waits_verify_rotate waits_verify_script_v2 waits_verify_setup waits_verify_timeline
  waits_verify_timeline_hover waits_verify_whats_new

text \<open>Every script keeps to its deadlines, and only verify_timeline_hover.py reads styles.\<close>

lemma script_calls_scripts:
  "(name, s) \<in> set scripts \<Longrightarrow>
     emits_only (script_calls name
       (if name = ''verification/verify_timeline_hover.py'' then [marker_read, tooltip_read]
        else [])) s"
  by (auto simp: scripts_def waits_scripts)

section \<open>The session of each script\<close>




















section \<open>Closing the browser\<close>

text \<open>
  C1. The claim: on every way out of a script (normal end, caught failure, uncaught
  exception, early return) browser.close() has been called exactly once. The code does
  not do this on two of the paths the claim names. In verify_timeline_hover.py, when
  page.goto raises, lines 9-11 print and return, and browser.close() of line 69 is never
  reached: the whole log of the run is start, launch, new page, goto, the print, stop.
  In verify_settings.py, when the Autosave Mode select is not visible, line 55 calls
  exit(1) and line 73 is never reached. The sibling scripts verify_aria.py (line 16) and
  verify_setup.py (line 34) do close the browser before their early return.
\<close>

theorem C1_close_skipped_on_early_exit:
  "log_of verify_timeline_hover (failing_at (Goto ''http://localhost:4173'' None) NavigationTimeout)
     = [PlaywrightStart, Launch (Some True), NewPage None, Goto ''http://localhost:4173'' None,
        Print ''Could not connect to localhost:4173.'', PlaywrightStop]
   \<and> exit_code verify_settings (env_of (\<lambda>h c. quiet)) = 1
   \<and> Close \<notin> set (log_of verify_settings (env_of (\<lambda>h c. quiet)))"
  by code_simp

section \<open>Navigation targets and their ports\<close>

text \<open>
  C3. Every http URL that a script passes to page.goto, in any run, is a localhost URL
  whose port is 3000, 4173, 5173 or 8080, and each of the four ports is the target of a
  goto in a run of some script.
\<close>

theorem C3_http_targets_on_four_ports:
  "(\<forall>(name, s) \<in> set scripts. \<forall>e u t.
       Goto u t \<in> set (log_of s e) \<longrightarrow> url_scheme u = ''http''
         \<longrightarrow> localhost_port u \<in> Some ` set ports)
   \<and> (\<forall>p \<in> set ports. \<exists>(name, s) \<in> set scripts. \<exists>e u t.
          Goto u t \<in> set (log_of s e) \<and> localhost_port u = Some p)"
proof (intro conjI)
  show "\<forall>(name, s) \<in> set scripts. \<forall>e u t.
       Goto u t \<in> set (log_of s e) \<longrightarrow> url_scheme u = ''http''
         \<longrightarrow> localhost_port u \<in> Some ` set ports"
  proof (intro ballI, clarify)
    fix name s e u t
    assume mem: "(name, s) \<in> set scripts"
      and g: "Goto u t \<in> set (log_of s e)"
      and sch: "url_scheme u = ''http''"
    from emits_log_mem[OF goto_any_scripts[OF mem] g]
    have "goto_http (Goto u t) \<or> goto_local_file (Goto u t)" .
    then show "localhost_port u \<in> Some ` set ports"
    proof
      assume "goto_http (Goto u t)"
      then have "u \<in> set http_urls" by (simp add: goto_http_def)
      then show ?thesis by (rule http_urls_port)
    next
      assume "goto_local_file (Goto u t)"
      then obtain p where "u = ''file://'' @ p" by (auto simp: goto_local_file_def)
      with sch file_url_scheme[of p] show ?thesis by simp
    qed
  qed
next
  have r3000: "Goto ''http://localhost:3000'' None
      \<in> set (log_of verify_font_size (failing_at (Goto ''http://localhost:3000'' None) NavigationTimeout))"
    by code_simp
  have r4173: "Goto ''http://localhost:4173'' None
      \<in> set (log_of verify_setup_dialog (failing_at (Goto ''http://localhost:4173'' None) NavigationTimeout))"
    by code_simp
  have r5173: "Goto ''http://localhost:5173'' None
      \<in> set (log_of verify_focus_run (failing_at (Goto ''http://localhost:5173'' None) NavigationTimeout))"
    by code_simp
  have r8080: "Goto ''http://localhost:8080'' None
      \<in> set (log_of verify_settings (failing_at (Goto ''http://localhost:8080'' None) NavigationTimeout))"
    by code_simp
  have m3000: "(''verify_font_size.py'', verify_font_size) \<in> set scripts"
    by (simp add: scripts_def)
  have m4173: "(''verification/verify_setup.py'', verify_setup_dialog) \<in> set scripts"
    by (simp add: scripts_def)
  have m5173: "(''verification/verify_focus.py'', verify_focus_run) \<in> set scripts"
    by (simp add: scripts_def)
  have m8080: "(''verify_settings.py'', verify_settings) \<in> set scripts"
    by (simp add: scripts_def)
  have ex: "\<And>name s e u t p. (name, s) \<in> set scripts \<Longrightarrow> Goto u t \<in> set (log_of s e)
               \<Longrightarrow> localhost_port u = Some p
               \<Longrightarrow> \<exists>(name, s) \<in> set scripts. \<exists>e u t.
                     Goto u t \<in> set (log_of s e) \<and> localhost_port u = Some p"
    by blast
  note e3000 = ex[OF m3000 r3000 port_3000]
  note e4173 = ex[OF m4173 r4173 port_4173]
  note e5173 = ex[OF m5173 r5173 port_5173]
  note e8080 = ex[OF m8080 r8080 port_8080]
  show "\<forall>p \<in> set ports. \<exists>(name, s) \<in> set scripts. \<exists>e u t.
          Goto u t \<in> set (log_of s e) \<and> localhost_port u = Some p"
    unfolding ports_def
  proof
    fix p :: nat
    assume "p \<in> set [3000, 4173, 5173, 8080]"
    then have "p = 3000 \<or> p = 4173 \<or> p = 5173 \<or> p = 8080" by simp
    then show "\<exists>(name, s) \<in> set scripts. \<exists>e u t.
          Goto u t \<in> set (log_of s e) \<and> localhost_port u = Some p"
      using e3000 e4173 e5173 e8080 by (elim disjE) (simp_all only:)
  qed
qed

theorem C3_http_targets_witness:
  "(''verify_settings.py'', verify_settings) \<in> set scripts
   \<and> Goto ''http://localhost:8080'' None
      \<in> set (log_of verify_settings (failing_at (Goto ''http://localhost:8080'' None) NavigationTimeout))
   \<and> url_scheme ''http://localhost:8080'' = ''http''
   \<and> localhost_port ''http://localhost:8080'' \<in> Some ` set ports"
proof -
  have a: "(''verify_settings.py'', verify_settings) \<in> set scripts"
    by (simp add: scripts_def)
  have b: "Goto ''http://localhost:8080'' None
      \<in> set (log_of verify_settings (failing_at (Goto ''http://localhost:8080'' None) NavigationTimeout))"
    by code_simp
  have c: "url_scheme ''http://localhost:8080'' = ''http''"
    by (simp add: url_scheme_def)
  from C3_http_targets_on_four_ports
  have "\<forall>(name, s) \<in> set scripts. \<forall>e u t.
       Goto u t \<in> set (log_of s e) \<longrightarrow> url_scheme u = ''http''
         \<longrightarrow> localhost_port u \<in> Some ` set ports"
    by (rule conjunct1)
  from bspec[OF this a]
  have "\<forall>e u t. Goto u t \<in> set (log_of verify_settings e) \<longrightarrow> url_scheme u = ''http''
         \<longrightarrow> localhost_port u \<in> Some ` set ports"
    by (simp only: prod.case)
  note inst = this[THEN spec, THEN spec, THEN spec, THEN mp, THEN mp]
  note d = inst[OF b c]
  show ?thesis
    by (rule conjI[OF a], rule conjI[OF b], rule conjI[OF c], rule d)
qed

section \<open>The scheme of the navigations\<close>

text \<open>
  C4. The claim: every navigation of every script has scheme http, never file. It fails
  for capture_screenshot.py, which loads verification/page_content.html from the disk:
  with the working directory /repo, the script navigates to a file URL.
\<close>

theorem C4_file_navigation_counterexample:
  "Goto ''file:///repo/verification/page_content.html'' None
     \<in> set (log_of capture_screenshot all_visible)
   \<and> url_scheme ''file:///repo/verification/page_content.html'' \<noteq> ''http''"
  by code_simp

text \<open>
  C4, amended. In every script but capture_screenshot.py, every URL passed to page.goto has
  scheme http; in capture_screenshot.py every URL passed to page.goto has scheme file.
  (page.reload() in verify_rotate.py has no URL argument: it loads the current page again.)
\<close>

theorem C4_http_except_capture_screenshot:
  "(\<forall>(name, s) \<in> set scripts. name \<noteq> ''verification/capture_screenshot.py'' \<longrightarrow>
       (\<forall>e u t. Goto u t \<in> set (log_of s e) \<longrightarrow> url_scheme u = ''http''))
   \<and> (\<forall>e u t. Goto u t \<in> set (log_of capture_screenshot e) \<longrightarrow> url_scheme u = ''file'')"
proof (intro conjI)
  show "\<forall>(name, s) \<in> set scripts. name \<noteq> ''verification/capture_screenshot.py'' \<longrightarrow>
       (\<forall>e u t. Goto u t \<in> set (log_of s e) \<longrightarrow> url_scheme u = ''http'')"
  proof (intro ballI, clarify)
    fix name s e u t
    assume mem: "(name, s) \<in> set scripts"
      and other: "name \<noteq> ''verification/capture_screenshot.py''"
      and g: "Goto u t \<in> set (log_of s e)"
    from emits_log_mem[OF goto_http_scripts[OF mem other] g]
    have "u \<in> set http_urls" by (simp add: goto_http_def)
    then show "url_scheme u = ''http''" by (rule http_urls_scheme)
  qed
next
  show "\<forall>e u t. Goto u t \<in> set (log_of capture_screenshot e) \<longrightarrow> url_scheme u = ''file''"
  proof (intro allI impI)
    fix e u t
    assume g: "Goto u t \<in> set (log_of capture_screenshot e)"
    from emits_log_mem[OF goto_capture_screenshot g]
    obtain p where "u = ''file://'' @ p" by (auto simp: goto_local_file_def)
    then show "url_scheme u = ''file''" by (simp only: file_url_scheme)
  qed
qed

theorem C4_http_except_capture_screenshot_witness:
  "(''verify_settings.py'', verify_settings) \<in> set scripts
   \<and> ''verify_settings.py'' \<noteq> ''verification/capture_screenshot.py''
   \<and> Goto ''http://localhost:8080'' None
      \<in> set (log_of verify_settings (failing_at (Goto ''http://localhost:8080'' None) NavigationTimeout))
   \<and> url_scheme ''http://localhost:8080'' = ''http''
   \<and> Goto ''file:///repo/verification/page_content.html'' None
        \<in> set (log_of capture_screenshot all_visible)
   \<and> url_scheme ''file:///repo/verification/page_content.html'' = ''file''"
proof -
  have a: "(''verify_settings.py'', verify_settings) \<in> set scripts"
    by (simp add: scripts_def)
  have n: "''verify_settings.py'' \<noteq> ''verification/capture_screenshot.py''"
    by simp
  have b: "Goto ''http://localhost:8080'' None
      \<in> set (log_of verify_settings (failing_at (Goto ''http://localhost:8080'' None) NavigationTimeout))"
    by code_simp
  have c: "Goto ''file:///repo/verification/page_content.html'' None
             \<in> set (log_of capture_screenshot all_visible)"
    by code_simp
  from C4_http_except_capture_screenshot
  have p1: "\<forall>(name, s) \<in> set scripts. name \<noteq> ''verification/capture_screenshot.py'' \<longrightarrow>
       (\<forall>e u t. Goto u t \<in> set (log_of s e) \<longrightarrow> url_scheme u = ''http'')"
    by (rule conjunct1)
  from C4_http_except_capture_screenshot
  have p2: "\<forall>e u t. Goto u t \<in> set (log_of capture_screenshot e) \<longrightarrow> url_scheme u = ''file''"
    by (rule conjunct2)
  from bspec[OF p1 a]
  have "''verify_settings.py'' \<noteq> ''verification/capture_screenshot.py'' \<longrightarrow>
       (\<forall>e u t. Goto u t \<in> set (log_of verify_settings e) \<longrightarrow> url_scheme u = ''http'')"
    by (simp only: prod.case)
  note q1 = this[THEN mp, OF n]
  note d = q1[THEN spec, THEN spec, THEN spec, THEN mp, OF b]
  note f = p2[THEN spec, THEN spec, THEN spec, THEN mp, OF c]
  show ?thesis
    by (rule conjI[OF a], rule conjI[OF n], rule conjI[OF b], rule conjI[OF d],
        rule conjI[OF c], rule f)
qed

section \<open>The deadlines of the navigations\<close>

text \<open>
  C5. The claim: the deadline the scripts pass to their navigation and load waits is 10
  seconds. No script passes 10 seconds to page.goto: verify_history.py passes
  timeout=30000, and verify_setup.py, like most scripts, passes no timeout at all.
\<close>

theorem C5_goto_timeout_counterexample:
  "Goto ''http://localhost:5173'' (Some 30000)
        \<in> set (log_of verify_history_panel (failing_at (Goto ''http://localhost:5173'' (Some 30000)) NavigationTimeout))
   \<and> Goto ''http://localhost:4173'' None
        \<in> set (log_of verify_setup_dialog (failing_at (Goto ''http://localhost:4173'' None) NavigationTimeout))"
  by code_simp

text \<open>
  C5, amended. No script passes 10 seconds to a navigation. In every run, page.goto is
  called with timeout=30000 in verify_history.py, with timeout=20000 in
  verify_script_v2.py and without a timeout argument in every other script, and
  wait_for_load_state is always called without a timeout (the driver's default applies
  where none is passed). A timeout of 10000 ms is passed only to seven element waits that
  follow the navigation: expect(settings_btn).to_be_visible in verify_contact.py (line 19),
  expect(loading_screen).not_to_be_visible in verify_fix_v2.py (line 29),
  wait_for_selector of the hidden loading screen in verify_frontend.py (line 16), of the
  title in verify_history.py (line 29), of the setup dialog in verify_setup.py (line 29)
  and of 'Path 1' in verify_rotate.py (lines 14 and 34); each of the seven, the two goto
  timeouts and a wait_for_load_state are reached in a run.
\<close>

theorem C5_deadlines_passed_by_scripts:
  "(\<forall>(name, s) \<in> set scripts. \<forall>e ev. ev \<in> set (log_of s e) \<longrightarrow>
        (\<forall>u t. ev = Goto u t \<longrightarrow> t = goto_timeout name)
      \<and> (\<forall>st t. ev = WaitForLoadState st t \<longrightarrow> t = None)
      \<and> (timeout_of ev = Some 10000 \<longrightarrow> (name, ev) \<in> set ten_second_waits))
   \<and> (\<forall>name. goto_timeout name \<noteq> Some 10000)
   \<and> (\<forall>(name, ev) \<in> set ten_second_waits.
         \<exists>s e. (name, s) \<in> set scripts \<and> ev \<in> set (log_of s e))
   \<and> Goto ''http://localhost:5173'' (Some 30000)
        \<in> set (log_of verify_history_panel
              (failing_at (Goto ''http://localhost:5173'' (Some 30000)) NavigationTimeout))
   \<and> Goto ''http://localhost:5173'' (Some 20000)
        \<in> set (log_of verify_path_stats
              (failing_at (Goto ''http://localhost:5173'' (Some 20000)) NavigationTimeout))
   \<and> WaitForLoadState ''networkidle'' None
        \<in> set (log_of verify_feature
              (failing_at (WaitForLoadState ''networkidle'' None) NavigationTimeout))"
proof -
  have never_ten: "\<forall>name. goto_timeout name \<noteq> Some 10000"
    by (simp add: goto_timeout_def)
  have all: "\<forall>(name, s) \<in> set scripts. \<forall>e ev. ev \<in> set (log_of s e) \<longrightarrow>
        (\<forall>u t. ev = Goto u t \<longrightarrow> t = goto_timeout name)
      \<and> (\<forall>st t. ev = WaitForLoadState st t \<longrightarrow> t = None)
      \<and> (timeout_of ev = Some 10000 \<longrightarrow> (name, ev) \<in> set ten_second_waits)"
  proof (intro ballI, clarify)
    fix name s e ev
    assume mem: "(name, s) \<in> set scripts" and inlog: "ev \<in> set (log_of s e)"
    from emits_log_mem[OF script_calls_scripts[OF mem] inlog]
    have nw: "nav_waits name ev" by (simp add: script_calls_def)
    from never_ten have nt: "goto_timeout name \<noteq> Some 10000" ..
    from nw nt
    show "(\<forall>u t. ev = Goto u t \<longrightarrow> t = goto_timeout name)
      \<and> (\<forall>st t. ev = WaitForLoadState st t \<longrightarrow> t = None)
      \<and> (timeout_of ev = Some 10000 \<longrightarrow> (name, ev) \<in> set ten_second_waits)"
      by (cases ev) (simp_all add: nav_waits_def)
  qed
  have ex: "\<And>name s e ev. (name, s) \<in> set scripts \<Longrightarrow> ev \<in> set (log_of s e)
              \<Longrightarrow> \<exists>s e. (name, s) \<in> set scripts \<and> ev \<in> set (log_of s e)"
    by blast
  have m_contact: "(''verify_contact.py'', verify_contact) \<in> set scripts"
    by (simp add: scripts_def)
  have m_fix: "(''verify_fix_v2.py'', verify_fix_v2) \<in> set scripts"
    by (simp add: scripts_def)
  have m_frontend: "(''verify_frontend.py'', verify_frontend) \<in> set scripts"
    by (simp add: scripts_def)
  have m_history: "(''verify_history.py'', verify_history_panel) \<in> set scripts"
    by (simp add: scripts_def)
  have m_setup: "(''verification/verify_setup.py'', verify_setup_dialog) \<in> set scripts"
    by (simp add: scripts_def)
  have m_rotate: "(''verification/verify_rotate.py'', test_add_rotate_features) \<in> set scripts"
    by (simp add: scripts_def)
  have r_contact: "ExpectVisible (ByLabel ''Settings'') (Some 10000)
        \<in> set (log_of verify_contact
              (failing_at (ExpectVisible (ByLabel ''Settings'') (Some 10000)) NavigationTimeout))"
    by code_simp
  have r_fix: "ExpectNotVisible (Css ''#loading-screen'') (Some 10000)
        \<in> set (log_of verify_fix_v2
              (scripted [(ExpectNotVisible (Css ''#loading-screen'') (Some 10000),
                            raising NavigationTimeout)] found))"
    by code_simp
  have r_frontend: "WaitForSelector ''#loading-screen'' (Some ''hidden'') (Some 10000)
        \<in> set (log_of verify_frontend
              (scripted [(PlaywrightStart, quiet), (Launch (Some True), quiet),
                         (NewPage (Some (1280, 800)), quiet),
                         (Goto ''http://localhost:8080'' None, quiet)]
                 (raising SessionError)))"
    by code_simp
  have r_history: "WaitForSelector ''text=Pedro Pathing Visualizer'' None (Some 10000)
        \<in> set (log_of verify_history_panel
              (failing_at (WaitForSelector ''text=Pedro Pathing Visualizer'' None (Some 10000))
                 NavigationTimeout))"
    by code_simp
  have r_setup: "WaitForSelector ''text=Select Your AutoPaths Directory'' None (Some 10000)
        \<in> set (log_of verify_setup_dialog
              (failing_at (WaitForSelector ''text=Select Your AutoPaths Directory'' None (Some 10000))
                 NavigationTimeout))"
    by code_simp
  have r_rotate1: "WaitForSelector ''text=Path 1'' None (Some 10000)
        \<in> set (log_of test_add_rotate_features
              (failing_at (WaitForSelector ''text=Path 1'' None (Some 10000)) NavigationTimeout))"
    by code_simp
  have r_rotate2: "WaitForSelector ''text=Path 1'' (Some ''visible'') (Some 10000)
        \<in> set (log_of test_add_rotate_features
              (failing_at (WaitForSelector ''text=Path 1'' (Some ''visible'') (Some 10000))
                 NavigationTimeout))"
    by code_simp
  note e1 = ex[OF m_contact r_contact]
  note e2 = ex[OF m_fix r_fix]
  note e3 = ex[OF m_frontend r_frontend]
  note e4 = ex[OF m_history r_history]
  note e5 = ex[OF m_setup r_setup]
  note e6 = ex[OF m_rotate r_rotate1]
  note e7 = ex[OF m_rotate r_rotate2]
  have reached: "\<forall>(name, ev) \<in> set ten_second_waits.
         \<exists>s e. (name, s) \<in> set scripts \<and> ev \<in> set (log_of s e)"
    unfolding ten_second_waits_def
  proof
    fix p :: "string \<times> event"
    assume "p \<in> set [
     (''verify_contact.py'', ExpectVisible (ByLabel ''Settings'') (Some 10000)),
     (''verify_fix_v2.py'', ExpectNotVisible (Css ''#loading-screen'') (Some 10000)),
     (''verify_frontend.py'', WaitForSelector ''#loading-screen'' (Some ''hidden'') (Some 10000)),
     (''verify_history.py'', WaitForSelector ''text=Pedro Pathing Visualizer'' None (Some 10000)),
     (''verification/verify_setup.py'',
        WaitForSelector ''text=Select Your AutoPaths Directory'' None (Some 10000)),
     (''verification/verify_rotate.py'', WaitForSelector ''text=Path 1'' None (Some 10000)),
     (''verification/verify_rotate.py'',
        WaitForSelector ''text=Path 1'' (Some ''visible'') (Some 10000))]"
    then have "p = (''verify_contact.py'', ExpectVisible (ByLabel ''Settings'') (Some 10000))
      \<or> p = (''verify_fix_v2.py'', ExpectNotVisible (Css ''#loading-screen'') (Some 10000))
      \<or> p = (''verify_frontend.py'', WaitForSelector ''#loading-screen'' (Some ''hidden'') (Some 10000))
      \<or> p = (''verify_history.py'', WaitForSelector ''text=Pedro Pathing Visualizer'' None (Some 10000))
      \<or> p = (''verification/verify_setup.py'',
               WaitForSelector ''text=Select Your AutoPaths Directory'' None (Some 10000))
      \<or> p = (''verification/verify_rotate.py'', WaitForSelector ''text=Path 1'' None (Some 10000))
      \<or> p = (''verification/verify_rotate.py'',
               WaitForSelector ''text=Path 1'' (Some ''visible'') (Some 10000))"
      by (simp only: list.set insert_iff empty_iff simp_thms)
    then show "case p of (name, ev) \<Rightarrow>
         \<exists>s e. (name, s) \<in> set scripts \<and> ev \<in> set (log_of s e)"
      using e1 e2 e3 e4 e5 e6 e7 by (elim disjE) (simp_all only: prod.case)
  qed
  have g30: "Goto ''http://localhost:5173'' (Some 30000)
        \<in> set (log_of verify_history_panel
              (failing_at (Goto ''http://localhost:5173'' (Some 30000)) NavigationTimeout))"
    by code_simp
  have g20: "Goto ''http://localhost:5173'' (Some 20000)
        \<in> set (log_of verify_path_stats
              (failing_at (Goto ''http://localhost:5173'' (Some 20000)) NavigationTimeout))"
    by code_simp
  have wl: "WaitForLoadState ''networkidle'' None
        \<in> set (log_of verify_feature
              (failing_at (WaitForLoadState ''networkidle'' None) NavigationTimeout))"
    by code_simp
  show ?thesis
    by (rule conjI[OF all], rule conjI[OF never_ten], rule conjI[OF reached],
        rule conjI[OF g30], rule conjI[OF g20], rule wl)
qed

theorem C5_deadlines_witness:
  "(''verify_history.py'', verify_history_panel) \<in> set scripts
   \<and> Goto ''http://localhost:5173'' (Some 30000)
        \<in> set (log_of verify_history_panel
              (failing_at (Goto ''http://localhost:5173'' (Some 30000)) NavigationTimeout))
   \<and> Some 30000 = goto_timeout ''verify_history.py''
   \<and> (''verify_contact.py'', verify_contact) \<in> set scripts
   \<and> ExpectVisible (ByLabel ''Settings'') (Some 10000)
        \<in> set (log_of verify_contact
              (failing_at (ExpectVisible (ByLabel ''Settings'') (Some 10000)) NavigationTimeout))
   \<and> timeout_of (ExpectVisible (ByLabel ''Settings'') (Some 10000)) = Some 10000
   \<and> (''verify_contact.py'', ExpectVisible (ByLabel ''Settings'') (Some 10000))
        \<in> set ten_second_waits
   \<and> (\<exists>s e. (''verify_contact.py'', s) \<in> set scripts
         \<and> ExpectVisible (ByLabel ''Settings'') (Some 10000) \<in> set (log_of s e))"
proof -
  have a: "(''verify_history.py'', verify_history_panel) \<in> set scripts"
    by (simp add: scripts_def)
  have c: "(''verify_contact.py'', verify_contact) \<in> set scripts"
    by (simp add: scripts_def)
  have r: "ExpectVisible (ByLabel ''Settings'') (Some 10000)
        \<in> set (log_of verify_contact
              (failing_at (ExpectVisible (ByLabel ''Settings'') (Some 10000)) NavigationTimeout))"
    by code_simp
  have t: "timeout_of (ExpectVisible (ByLabel ''Settings'') (Some 10000)) = Some 10000"
    by simp
  note p1 = C5_deadlines_passed_by_scripts[THEN conjunct1]
  note p3 = C5_deadlines_passed_by_scripts[THEN conjunct2, THEN conjunct2, THEN conjunct1]
  note b = C5_deadlines_passed_by_scripts[THEN conjunct2, THEN conjunct2, THEN conjunct2,
      THEN conjunct1]
  from bspec[OF p1 a]
  have h: "\<forall>e ev. ev \<in> set (log_of verify_history_panel e) \<longrightarrow>
        (\<forall>u t. ev = Goto u t \<longrightarrow> t = goto_timeout ''verify_history.py'')
      \<and> (\<forall>st t. ev = WaitForLoadState st t \<longrightarrow> t = None)
      \<and> (timeout_of ev = Some 10000 \<longrightarrow> (''verify_history.py'', ev) \<in> set ten_second_waits)"
    by (simp only: prod.case simp_thms)
  note h1 = h[THEN spec, THEN spec, THEN mp, OF b, THEN conjunct1, THEN spec, THEN spec, THEN mp,
      OF refl]
  from bspec[OF p1 c]
  have k: "\<forall>e ev. ev \<in> set (log_of verify_contact e) \<longrightarrow>
        (\<forall>u t. ev = Goto u t \<longrightarrow> t = goto_timeout ''verify_contact.py'')
      \<and> (\<forall>st t. ev = WaitForLoadState st t \<longrightarrow> t = None)
      \<and> (timeout_of ev = Some 10000 \<longrightarrow> (''verify_contact.py'', ev) \<in> set ten_second_waits)"
    by (simp only: prod.case simp_thms)
  note k1 = k[THEN spec, THEN spec, THEN mp, OF r, THEN conjunct2, THEN conjunct2, THEN mp, OF t]
  from bspec[OF p3 k1]
  have x: "\<exists>s e. (''verify_contact.py'', s) \<in> set scripts
         \<and> ExpectVisible (ByLabel ''Settings'') (Some 10000) \<in> set (log_of s e)"
    by (simp only: prod.case simp_thms)
  show ?thesis
    by (rule conjI[OF a], rule conjI[OF b], rule conjI[OF h1], rule conjI[OF c],
        rule conjI[OF r], rule conjI[OF t], rule conjI[OF k1], rule x)
qed

section \<open>Dismissing the onboarding dialogs\<close>

text \<open>
  C10. The claim: in every script that tries to dismiss an onboarding or What's New
  dialog, an exception raised while doing so is caught and printed and never ends the
  script. verify_timeline_hover.py (lines 15-19) closes the dialog outside any try: when
  the dialog is there and pressing Escape raises, the exception leaves the script, the
  exit code is 1, and nothing after line 18 runs.
\<close>

theorem C10_unwrapped_dismissal_counterexample:
  "exit_code verify_timeline_hover (scripted [(Press ''Escape'', raising SessionError)] found) = 1
   \<and> log_of verify_timeline_hover (scripted [(Press ''Escape'', raising SessionError)] found)
       = [PlaywrightStart, Launch (Some True), NewPage None, Goto ''http://localhost:4173'' None,
          WaitForLoadState ''networkidle'' None,
          Count (Css ''div[role=\"dialog\"][aria-labelledby=\"whats-new-title\"]''),
          IsVisible (First (Css ''div[role=\"dialog\"][aria-labelledby=\"whats-new-title\"]'')),
          Press ''Escape'', PlaywrightStop]"
  by code_simp

text \<open>
  C10, amended. In verify_settings.py (lines 13-28), verify_frontend.py (lines 23-43),
  verify_feature.py (lines 17-22 and 24-29), verify_fix_v2.py (lines 15-23) and
  verify_script_v2.py (lines 20-29) the steps that dismiss the dialog are inside
  try / except Exception with a handler that only prints: from any state and whatever the
  driver does, the block runs to its end, so the script goes on with its next statement.
\<close>

theorem C10_wrapped_dismissal_completes:
  "(\<forall>w. \<exists>w'. verify_settings_dismiss w = (Inr (), w'))
   \<and> (\<forall>w. \<exists>w'. verify_frontend_dismiss w = (Inr (), w'))
   \<and> (\<forall>w. \<exists>w'. verify_feature_dismiss_whats_new w = (Inr (), w'))
   \<and> (\<forall>w. \<exists>w'. verify_feature_dismiss_tutorial w = (Inr (), w'))
   \<and> (\<forall>w. \<exists>w'. verify_fix_v2_dismiss w = (Inr (), w'))
   \<and> (\<forall>w. \<exists>w'. verify_script_v2_dismiss w = (Inr (), w'))"
proof -
  have c1: "completes verify_settings_dismiss"
    by (simp add: verify_settings_dismiss_def completes_rules raises_only_rules)
  have c2: "completes verify_frontend_dismiss"
    by (simp add: verify_frontend_dismiss_def completes_rules raises_only_rules)
  have c3: "completes verify_feature_dismiss_whats_new"
    by (simp add: verify_feature_dismiss_whats_new_def completes_rules raises_only_rules)
  have c4: "completes verify_feature_dismiss_tutorial"
    by (simp add: verify_feature_dismiss_tutorial_def completes_rules raises_only_rules)
  have c5: "completes verify_fix_v2_dismiss"
    by (simp add: verify_fix_v2_dismiss_def completes_rules raises_only_rules)
  have c6: "completes verify_script_v2_dismiss"
    by (simp add: verify_script_v2_dismiss_def completes_rules raises_only_rules)
  have unit: "\<And>m :: unit prog. completes m \<Longrightarrow> \<forall>w. \<exists>w'. m w = (Inr (), w')"
    by (simp add: completes_def)
  show ?thesis
    by (rule conjI[OF unit[OF c1]], rule conjI[OF unit[OF c2]], rule conjI[OF unit[OF c3]],
        rule conjI[OF unit[OF c4]], rule conjI[OF unit[OF c5]], rule unit[OF c6])
qed

section \<open>Retrying a click with force\<close>

text \<open>
  C6. The claim: a click is retried with force=true only when it failed because the
  target was obscured; any other failure propagates without a retry. In verify_focus.py
  (lines 23-27) the retry is under a bare except: when the first click fails because the
  element is not found, the script clicks again with force=True all the same.
\<close>

theorem C6_retry_after_other_failure_counterexample:
  "log_of verify_focus_run
     (scripted [(Click (First (ByLabel ''Add new path segment'')) False (Some 2000),
                   raising ElementNotFound),
                (Click (First (ByLabel ''Add new path segment'')) True None,
                   raising SessionError)] found)
   = [PlaywrightStart, Launch (Some True), NewPage None, Goto ''http://localhost:5173'' None,
      WaitForTimeout 2000, Press ''Escape'', WaitForTimeout 500, Press ''Escape'',
      WaitForTimeout 500, Count (ByLabel ''Add new path segment''),
      Click (First (ByLabel ''Add new path segment'')) False (Some 2000),
      Click (First (ByLabel ''Add new path segment'')) True None,
      PlaywrightStop]"
  by code_simp

text \<open>
  C6, amended. In verify_focus.py (lines 23-27) and verify_timeline_hover.py (lines 23-26)
  the click on the Add Path button is retried exactly once with force=true when the first
  click raises any exception, whatever its kind; when the first click succeeds there is no
  second click; an exception raised by the forced click propagates.
\<close>

theorem C6_forced_retry_on_any_exception:
  "(raises (driver (environment w) (trace w) (Click l False t)) = None \<longrightarrow>
      click_or_force l t w = (Inr (), w\<lparr>trace := trace w @ [Click l False t]\<rparr>))
   \<and> (\<forall>e. raises (driver (environment w) (trace w) (Click l False t)) = Some e \<longrightarrow>
      trace (snd (click_or_force l t w)) = trace w @ [Click l False t, Click l True None]
      \<and> fst (click_or_force l t w) =
          (case raises (driver (environment w) (trace w @ [Click l False t]) (Click l True None)) of
             None \<Rightarrow> Inr ()
           | Some e2 \<Rightarrow> Inl (Raise e2)))"
  by (simp add: click_or_force_def try_except_all_def do_call_run split: option.splits)

theorem C6_forced_retry_witness:
  "raises (driver (scripted [(Click (ByRoleName ''button'' ''Add Path'') False None,
                               raising ElementNotFound)] found) []
             (Click (ByRoleName ''button'' ''Add Path'') False None)) = Some ElementNotFound
   \<and> trace (snd (click_or_force (ByRoleName ''button'' ''Add Path'') None
         \<lparr>environment = scripted [(Click (ByRoleName ''button'' ''Add Path'') False None,
                                   raising ElementNotFound)] found,
          trace = []\<rparr>))
       = [Click (ByRoleName ''button'' ''Add Path'') False None,
          Click (ByRoleName ''button'' ''Add Path'') True None]"
proof -
  let ?l = "ByRoleName ''button'' ''Add Path''"
  let ?e = "scripted [(Click ?l False None, raising ElementNotFound)] found"
  let ?w = "\<lparr>environment = ?e, trace = []\<rparr>"
  have a: "raises (driver (environment ?w) (trace ?w) (Click ?l False None)) = Some ElementNotFound"
    by (simp add: scripted_def env_of_def raising_def)
  note inst = C6_forced_retry_on_any_exception[of ?w ?l None, THEN conjunct2, THEN spec,
      THEN mp, OF a, THEN conjunct1]
  from a have a': "raises (driver ?e [] (Click ?l False None)) = Some ElementNotFound"
    by simp
  from inst have b: "trace (snd (click_or_force ?l None ?w)) = [Click ?l False None, Click ?l True None]"
    by simp
  show ?thesis by (rule conjI[OF a' b])
qed

section \<open>Reading a computed style\<close>


section \<open>One browser session for each run\<close>



section \<open>Exit codes of failed runs\<close>

text \<open>
  C2. The claim: whenever a check fails, the exit code is not 0. In
  verify_filemanager_sort.py (lines 42-48) the handler of the main block catches the
  exception of a failed step, prints it, and the script ends normally: with a File Manager
  button that cannot be clicked, the run prints the failure and exits with code 0.
\<close>

theorem C2_failed_check_exit_zero_counterexample:
  "exit_code verify_filemanager_sort
     (failing_at (Click (ByTitle ''File Manager'') False None) ElementNotFound) = 0
   \<and> log_of verify_filemanager_sort
       (failing_at (Click (ByTitle ''File Manager'') False None) ElementNotFound)
       = [PlaywrightStart, Launch None, NewPage None, Goto ''http://localhost:4173'' None,
          Click (ByTitle ''File Manager'') False None,
          Print ''Verification failed: ElementNotFound'', Close, PlaywrightStop]"
  by code_simp

text \<open>
  C2, amended. A failed check gives a non-zero exit code only where the exception leaves
  the script. verify_contact.py re-raises it (line 68): its exit code is 0 only when the
  verification function ran to its end and 'Verification successful!' was printed.
  verify_filemanager_sort.py and verify_command_palette.py catch every exception of the
  verification function and only print it (and take a screenshot): whether or not a check
  failed, they exit with code 0 whenever the calls outside the verification function
  (starting the driver, launch, new page, viewport, the failure screenshot, close, stop)
  do not raise.
\<close>

theorem C2_exit_code_follows_the_handler:
  "(\<forall>e. quiet_on e [PlaywrightStart, Launch None, NewPage None, Close, PlaywrightStop]
        \<longrightarrow> exit_code verify_filemanager_sort e = 0)
   \<and> (\<forall>e. quiet_on e [PlaywrightStart, Launch (Some True), NewPage None, SetViewport 1280 720,
                      Screenshot ''verification/failure.png'', Close, PlaywrightStop]
        \<longrightarrow> exit_code verify_command_palette e = 0)
   \<and> (\<forall>e. exit_code verify_contact e = 0
        \<longrightarrow> Print ''Verification successful!'' \<in> set (log_of verify_contact e))"
proof (intro conjI allI impI)
  fix e
  assume "quiet_on e [PlaywrightStart, Launch None, NewPage None, Close, PlaywrightStop]"
  then have "calm e verify_filemanager_sort"
    by (simp add: quiet_on_def verify_filemanager_sort_def verify_recent_files_sort_def
        calm_rules raises_only_rules emits_rules)
  then show "exit_code verify_filemanager_sort e = 0" by (rule calm_exit_code)
next
  fix e
  assume "quiet_on e [PlaywrightStart, Launch (Some True), NewPage None, SetViewport 1280 720,
                      Screenshot ''verification/failure.png'', Close, PlaywrightStop]"
  then have "calm e verify_command_palette"
    by (simp add: quiet_on_def verify_command_palette_def verify_command_palette_fn_def
        calm_rules raises_only_rules emits_rules)
  then show "exit_code verify_command_palette e = 0" by (rule calm_exit_code)
next
  fix e
  assume zero: "exit_code verify_contact e = 0"
  have r: "raises_only verify_contact"
    by (simp add: verify_contact_def verify_contact_section_def raises_only_rules
        raises_only_try_finally raises_only_with_playwright)
  have "reaches (Print ''Verification successful!'') verify_contact"
    by (simp add: verify_contact_def reaches_with_playwright reaches_bind_right
        reaches_bind_left reaches_try_finally reaches_try_except reaches_print
        never_normal_raise never_normal_bind_left never_normal_bind_right emits_rules)
  from reaches_exit_code[OF r this zero]
  show "Print ''Verification successful!'' \<in> set (log_of verify_contact e)" .
qed

theorem C2_exit_code_witness:
  "quiet_on (failing_at (Click (ByTitle ''File Manager'') False None) ElementNotFound)
     [PlaywrightStart, Launch None, NewPage None, Close, PlaywrightStop]
   \<and> exit_code verify_filemanager_sort
         (failing_at (Click (ByTitle ''File Manager'') False None) ElementNotFound) = 0
   \<and> quiet_on (failing_at (Press ''Control+p'') SessionError)
         [PlaywrightStart, Launch (Some True), NewPage None, SetViewport 1280 720,
          Screenshot ''verification/failure.png'', Close, PlaywrightStop]
   \<and> exit_code verify_command_palette (failing_at (Press ''Control+p'') SessionError) = 0
   \<and> exit_code verify_contact (env_of (\<lambda>h c. quiet)) = 0
   \<and> Print ''Verification successful!'' \<in> set (log_of verify_contact (env_of (\<lambda>h c. quiet)))"
proof -
  let ?e1 = "failing_at (Click (ByTitle ''File Manager'') False None) ElementNotFound"
  let ?e2 = "failing_at (Press ''Control+p'') SessionError"
  let ?e3 = "env_of (\<lambda>h c. quiet)"
  have q1: "quiet_on ?e1 [PlaywrightStart, Launch None, NewPage None, Close, PlaywrightStop]"
    by (simp add: quiet_on_def failing_at_def env_of_def quiet_def)
  have q2: "quiet_on ?e2 [PlaywrightStart, Launch (Some True), NewPage None, SetViewport 1280 720,
          Screenshot ''verification/failure.png'', Close, PlaywrightStop]"
    by (simp add: quiet_on_def failing_at_def env_of_def quiet_def)
  have z3: "exit_code verify_contact ?e3 = 0"
    by code_simp
  note t1 = C2_exit_code_follows_the_handler[THEN conjunct1, THEN spec, THEN mp, OF q1]
  note t2 = C2_exit_code_follows_the_handler[THEN conjunct2, THEN conjunct1, THEN spec, THEN mp,
      OF q2]
  note t3 = C2_exit_code_follows_the_handler[THEN conjunct2, THEN conjunct2, THEN spec, THEN mp,
      OF z3]
  show ?thesis
    by (rule conjI[OF q1], rule conjI[OF t1], rule conjI[OF q2], rule conjI[OF t2],
        rule conjI[OF z3], rule t3)
qed

section \<open>Opening the Settings dialog\<close>

text \<open>
  C8. verify_contact.py, lines 10-23, run on the page of the scenario (not yet loaded, the
  dialog open or not): the script loads the page, finds the control labelled Settings,
  clicks it, and the assertion that follows, that an element with role dialog is visible,
  passes; the run goes on to the next statement. Before the click, with the dialog closed,
  the same assertion fails.
\<close>

theorem C8_settings_click_opens_dialog:
  "(\<forall>d. take 10 (log_of verify_contact (page_env \<lparr>loaded = False, dialog_open = d\<rparr>))
        = [PlaywrightStart, Launch (Some True), NewPage None, SetViewport 1280 720,
           Goto ''http://localhost:4173/'' None,
           AddStyleTag ''#loading-screen { display: none !important; }'',
           ExpectVisible (ByLabel ''Settings'') (Some 10000),
           Click (ByLabel ''Settings'') False None,
           ExpectVisible (ByRole ''dialog'') None,
           ExpectVisible (ByText ''Credits & Legal'') None]
      \<and> verdict_of (page_env \<lparr>loaded = False, dialog_open = d\<rparr>)
           [PlaywrightStart, Launch (Some True), NewPage None, SetViewport 1280 720,
            Goto ''http://localhost:4173/'' None,
            AddStyleTag ''#loading-screen { display: none !important; }'',
            ExpectVisible (ByLabel ''Settings'') (Some 10000),
            Click (ByLabel ''Settings'') False None]
           (ExpectVisible (ByRole ''dialog'') None) = Pass)
   \<and> verdict_of (page_env \<lparr>loaded = False, dialog_open = False\<rparr>)
        [PlaywrightStart, Launch (Some True), NewPage None, SetViewport 1280 720,
         Goto ''http://localhost:4173/'' None,
         AddStyleTag ''#loading-screen { display: none !important; }'',
         ExpectVisible (ByLabel ''Settings'') (Some 10000)]
        (ExpectVisible (ByRole ''dialog'') None) = Fail"
proof -
  have log_closed: "take 10 (log_of verify_contact (page_env \<lparr>loaded = False, dialog_open = False\<rparr>))
        = [PlaywrightStart, Launch (Some True), NewPage None, SetViewport 1280 720,
           Goto ''http://localhost:4173/'' None,
           AddStyleTag ''#loading-screen { display: none !important; }'',
           ExpectVisible (ByLabel ''Settings'') (Some 10000),
           Click (ByLabel ''Settings'') False None,
           ExpectVisible (ByRole ''dialog'') None,
           ExpectVisible (ByText ''Credits & Legal'') None]"
    by code_simp
  have log_open: "take 10 (log_of verify_contact (page_env \<lparr>loaded = False, dialog_open = True\<rparr>))
        = [PlaywrightStart, Launch (Some True), NewPage None, SetViewport 1280 720,
           Goto ''http://localhost:4173/'' None,
           AddStyleTag ''#loading-screen { display: none !important; }'',
           ExpectVisible (ByLabel ''Settings'') (Some 10000),
           Click (ByLabel ''Settings'') False None,
           ExpectVisible (ByRole ''dialog'') None,
           ExpectVisible (ByText ''Credits & Legal'') None]"
    by code_simp
  have pass_closed: "verdict_of (page_env \<lparr>loaded = False, dialog_open = False\<rparr>)
           [PlaywrightStart, Launch (Some True), NewPage None, SetViewport 1280 720,
            Goto ''http://localhost:4173/'' None,
            AddStyleTag ''#loading-screen { display: none !important; }'',
            ExpectVisible (ByLabel ''Settings'') (Some 10000),
            Click (ByLabel ''Settings'') False None]
           (ExpectVisible (ByRole ''dialog'') None) = Pass"
    by code_simp
  have pass_open: "verdict_of (page_env \<lparr>loaded = False, dialog_open = True\<rparr>)
           [PlaywrightStart, Launch (Some True), NewPage None, SetViewport 1280 720,
            Goto ''http://localhost:4173/'' None,
            AddStyleTag ''#loading-screen { display: none !important; }'',
            ExpectVisible (ByLabel ''Settings'') (Some 10000),
            Click (ByLabel ''Settings'') False None]
           (ExpectVisible (ByRole ''dialog'') None) = Pass"
    by code_simp
  have fail_before: "verdict_of (page_env \<lparr>loaded = False, dialog_open = False\<rparr>)
        [PlaywrightStart, Launch (Some True), NewPage None, SetViewport 1280 720,
         Goto ''http://localhost:4173/'' None,
         AddStyleTag ''#loading-screen { display: none !important; }'',
         ExpectVisible (ByLabel ''Settings'') (Some 10000)]
        (ExpectVisible (ByRole ''dialog'') None) = Fail"
    by code_simp
  have both: "\<And>P. P False \<Longrightarrow> P True \<Longrightarrow> \<forall>d. P d"
    by (metis (full_types))
  have "\<forall>d. take 10 (log_of verify_contact (page_env \<lparr>loaded = False, dialog_open = d\<rparr>))
        = [PlaywrightStart, Launch (Some True), NewPage None, SetViewport 1280 720,
           Goto ''http://localhost:4173/'' None,
           AddStyleTag ''#loading-screen { display: none !important; }'',
           ExpectVisible (ByLabel ''Settings'') (Some 10000),
           Click (ByLabel ''Settings'') False None,
           ExpectVisible (ByRole ''dialog'') None,
           ExpectVisible (ByText ''Credits & Legal'') None]
      \<and> verdict_of (page_env \<lparr>loaded = False, dialog_open = d\<rparr>)
           [PlaywrightStart, Launch (Some True), NewPage None, SetViewport 1280 720,
            Goto ''http://localhost:4173/'' None,
            AddStyleTag ''#loading-screen { display: none !important; }'',
            ExpectVisible (ByLabel ''Settings'') (Some 10000),
            Click (ByLabel ''Settings'') False None]
           (ExpectVisible (ByRole ''dialog'') None) = Pass"
    by (rule both) (rule conjI[OF log_closed pass_closed], rule conjI[OF log_open pass_open])
  then show ?thesis using fail_before by (rule conjI)
qed


end
